theory Spec2Isabelle
  imports Complex_Main
begin

section \<open>Python strings and slices\<close>

text \<open>
  A Python \<open>str\<close> is modelled as a \<open>string\<close>: a list of characters whose code points
  lie below 256, \<open>len\<close> being \<open>length\<close>. Integers are Python's unbounded \<open>int\<close>.
\<close>

definition slice_to :: "'a list \<Rightarrow> int \<Rightarrow> 'a list" where
  \<comment> \<open>\<open>xs[:n]\<close>: a negative bound counts from the end and is clamped at the start.\<close>
  "slice_to xs n =
     (if 0 \<le> n then take (nat n) xs else take (length xs - nat (- n)) xs)"

definition isspace :: "char \<Rightarrow> bool" where
  \<comment> \<open>The whitespace of \<open>str.strip()\<close> among the code points below 256.\<close>
  "isspace c =
     (let k = (of_char c :: nat)
      in (9 \<le> k \<and> k \<le> 13) \<or> (28 \<le> k \<and> k \<le> 32) \<or> k = 133 \<or> k = 160)"

definition strip :: "string \<Rightarrow> string" where
  "strip s = rev (dropWhile isspace (rev (dropWhile isspace s)))"

definition rfind :: "string \<Rightarrow> char \<Rightarrow> int" where
  \<comment> \<open>\<open>s.rfind(c)\<close>: the highest index of \<open>c\<close>, or \<open>-1\<close>.\<close>
  "rfind s c =
     (if c \<in> set s
      then int (length s) - 1 - int (length (takeWhile (\<lambda>x. x \<noteq> c) (rev s)))
      else - 1)"

fun split_blank :: "string \<Rightarrow> string list" where
  \<comment> \<open>\<open>text.split("\n\n")\<close>: separators are found left to right, without overlap.\<close>
  "split_blank [] = [[]]"
| "split_blank [c] = [[c]]"
| "split_blank (a # b # cs) =
     (if a = CHR 0x0A \<and> b = CHR 0x0A then [] # split_blank cs
      else (case split_blank (b # cs) of
              [] \<Rightarrow> [[a]]
            | p # ps \<Rightarrow> (a # p) # ps))"

fun contains :: "string \<Rightarrow> string \<Rightarrow> bool" where
  \<comment> \<open>\<open>sub in s\<close> on strings: \<open>sub\<close> starts at some position of \<open>s\<close>.\<close>
  "contains sub [] = (sub = [])"
| "contains sub (c # cs) = (take (length sub) (c # cs) = sub \<or> contains sub cs)"

definition lower_char :: "char \<Rightarrow> char" where
  \<comment> \<open>\<open>str.lower()\<close> on one code point below 256.\<close>
  "lower_char c =
     (let k = (of_char c :: nat)
      in if (65 \<le> k \<and> k \<le> 90) \<or> (192 \<le> k \<and> k \<le> 214) \<or> (216 \<le> k \<and> k \<le> 222)
         then char_of (k + 32) else c)"

definition lower :: "string \<Rightarrow> string" where
  "lower s = map lower_char s"

section \<open>Configuration (config.py)\<close>

type_synonym environ = "string \<rightharpoonup> string"

definition getenv :: "environ \<Rightarrow> string \<Rightarrow> string \<Rightarrow> string" where
  \<comment> \<open>\<open>os.getenv(name, default)\<close>\<close>
  "getenv env name dflt = (case env name of None \<Rightarrow> dflt | Some v \<Rightarrow> v)"

definition is_digit :: "char \<Rightarrow> bool" where
  "is_digit c = (48 \<le> (of_char c :: nat) \<and> (of_char c :: nat) \<le> 57)"

fun digits_acc :: "bool \<Rightarrow> nat \<Rightarrow> string \<Rightarrow> nat option" where
  \<comment> \<open>Decimal digits, single underscores allowed between two digits; the flag says
      that the previous character was a digit.\<close>
  "digits_acc prev acc [] = (if prev then Some acc else None)"
| "digits_acc prev acc (c # cs) =
     (if is_digit c then digits_acc True (acc * 10 + ((of_char c :: nat) - 48)) cs
      else if c = CHR ''_'' \<and> prev then digits_acc False acc cs
      else None)"

definition int_space :: "char \<Rightarrow> bool" where
  \<comment> \<open>The whitespace that \<open>int\<close> skips around a literal: the ASCII characters 9 to 13
      and 32, and the two spaces beyond ASCII; the separators 28 to 31 are not skipped.\<close>
  "int_space c =
     (let k = (of_char c :: nat)
      in (9 \<le> k \<and> k \<le> 13) \<or> k = 32 \<or> k = 133 \<or> k = 160)"

definition py_int :: "string \<Rightarrow> int option" where
  \<comment> \<open>\<open>int(s)\<close> on a string; \<open>None\<close> is the \<open>ValueError\<close> of a malformed literal or
      of one with more than 4300 digits.\<close>
  "py_int s =
     (if length (filter is_digit s) > 4300 then None
      else (case rev (dropWhile int_space (rev (dropWhile int_space s))) of
              [] \<Rightarrow> None
            | c # cs \<Rightarrow>
                if c = CHR ''-'' then map_option (\<lambda>n. - int n) (digits_acc False 0 cs)
                else if c = CHR ''+'' then map_option int (digits_acc False 0 cs)
                else map_option int (digits_acc False 0 (c # cs))))"

definition MAX_CHUNK_SIZE :: "environ \<Rightarrow> int option" where
  \<comment> \<open>config.py line 41, the module that ingest.py imports.\<close>
  "MAX_CHUNK_SIZE env = py_int (getenv env ''MAX_CHUNK_SIZE'' ''8000'')"

definition src_MAX_CHUNK_SIZE :: "environ \<Rightarrow> int option" where
  \<comment> \<open>src/config.py line 50, a second configuration module that ingest.py does not import.\<close>
  "src_MAX_CHUNK_SIZE env = py_int (getenv env ''MAX_CHUNK_SIZE'' ''5000'')"

definition SUMMARY_PREVIEW_LENGTH :: "environ \<Rightarrow> int option" where
  "SUMMARY_PREVIEW_LENGTH env = py_int (getenv env ''SUMMARY_PREVIEW_LENGTH'' ''1000'')"

definition EMBEDDING_MODEL :: "environ \<Rightarrow> string" where
  "EMBEDDING_MODEL env = getenv env ''EMBEDDING_MODEL'' ''text-embedding-3-small''"

section \<open>The chunker (ingest.py, chunk\_text)\<close>

definition pack_step :: "int \<Rightarrow> string list \<times> string \<Rightarrow> string \<Rightarrow> string list \<times> string" where
  \<comment> \<open>One round of the loop of lines 71 to 78 on the pair (chunks, current\_chunk).\<close>
  "pack_step max_chunk_size st paragraph =
     (let chunks = fst st; current_chunk = snd st
      in if int (length current_chunk) + int (length paragraph) + 2 > max_chunk_size
         then (if current_chunk \<noteq> [] then chunks @ [strip current_chunk] else chunks,
               paragraph)
         else (chunks,
               if current_chunk \<noteq> []
               then current_chunk @ [CHR 0x0A, CHR 0x0A] @ paragraph
               else paragraph))"

definition pack :: "int \<Rightarrow> string list \<Rightarrow> string list" where
  \<comment> \<open>Lines 65 to 82: the loop over the paragraphs, then the final chunk.\<close>
  "pack max_chunk_size paragraphs =
     (let st = foldl (pack_step max_chunk_size) ([], []) paragraphs
      in if snd st \<noteq> [] then fst st @ [strip (snd st)] else fst st)"

definition truncate_chunk :: "int \<Rightarrow> string \<Rightarrow> string" where
  \<comment> \<open>Lines 89 to 97. The test \<open>last_period > max_chunk_size * 0.8\<close> compares an integer
      with a double. For sizes of magnitude below \<open>2 ^ 48\<close> the product is the double
      nearest to four fifths of the size: that number itself when it is an integer, and
      otherwise a double that lies between the same two integers. So the test is
      \<open>5 * last_period > 4 * max_chunk_size\<close>.\<close>
  "truncate_chunk max_chunk_size chunk =
     (if int (length chunk) > max_chunk_size
      then (let truncated = slice_to chunk max_chunk_size;
                last_period = rfind truncated (CHR ''.'')
            in if 5 * last_period > 4 * max_chunk_size
               then slice_to truncated (last_period + 1)
               else truncated)
      else chunk)"

definition chunk_text :: "int \<Rightarrow> string \<Rightarrow> int option \<Rightarrow> string list" where
  \<comment> \<open>The first argument is the value of the module constant \<open>MAX_CHUNK_SIZE\<close>.\<close>
  "chunk_text cfg_max text arg =
     (let max_chunk_size = (case arg of None \<Rightarrow> cfg_max | Some v \<Rightarrow> v)
      in if int (length text) \<le> max_chunk_size then [text]
         else (let chunks = pack max_chunk_size (split_blank text);
                   final_chunks = map (truncate_chunk max_chunk_size) chunks
               in if final_chunks \<noteq> [] then final_chunks
                  else [slice_to text max_chunk_size]))"

section \<open>Remote services, the store and errors\<close>

text \<open>
  The embedding service, the completion service and the store are outside the program.
  A call of a remote service either raises, which is modelled by the text \<open>str(e)\<close> of
  the exception (\<open>Inl\<close>), or yields the value the code reads from the response. The
  store is the list of the rows of table \<open>site_pages\<close>; whether a query or an insert
  is refused, and with which error text, is decided by the environment. Every remote
  call is appended to a trace, so that the absence of a call can be stated.
\<close>

type_synonym vector = "real list"

record row =
  url :: string
  chunk_number :: nat
  title :: string
  summary :: string
  content :: string
  filename :: string
  chunk_size :: nat
  total_chunks :: nat
  ingested_at :: string
  embedding :: vector
  source :: string

datatype json = Number real | Boolean bool | NotNumber

text \<open>
  The value under a key of a candidate: a number, a boolean, or a value that is no
  number (null, a string, an array or an object).
\<close>

record doc =
  similarity :: "json option"
  other_keys :: "(string \<times> string) list"

datatype call =
    EmbeddingsCreate string
  | SummaryCompletion string
  | AnswerCompletion string string
  | SelectUrl string
  | Insert row
  | SelectAll
  | RpcMatchDocuments vector int real

datatype diagnostic =
    DiagInvalidKey
  | DiagQuota
  | DiagRateLimit
  | DiagEmbedding string
  | DiagFunctionMissing
  | DiagVectorMissing
  | DiagRpc string

datatype ui_event = StError diagnostic | StWarning diagnostic

record world =
  rows :: "row list"
  calls :: "call list"
  ui :: "ui_event list"

record services =
  openai_ready :: bool
  supabase_ready :: bool
  embeddings_create :: "string \<Rightarrow> string + vector"
  summary_create :: "string \<Rightarrow> string + string"
  answer_create :: "string \<Rightarrow> string \<Rightarrow> string + string"
  select_fault :: "row list \<Rightarrow> string \<Rightarrow> string option"
  insert_fault :: "row list \<Rightarrow> row \<Rightarrow> string option"
  stats_fault :: "row list \<Rightarrow> string option"
  rpc_match_documents :: "vector \<Rightarrow> int \<Rightarrow> real \<Rightarrow> string + doc list"
  clock :: "nat \<Rightarrow> string"
  filename_title :: "string \<Rightarrow> string"
  system_prompt :: "doc list \<Rightarrow> string"

text \<open>
  \<open>openai_ready\<close> and \<open>supabase_ready\<close> say that the client objects are not \<open>None\<close>.
  \<open>clock\<close> is the reading of \<open>datetime.now\<close> after so many remote calls,
  \<open>filename_title\<close> the title that line 218 of ingest.py derives from a file name, and
  \<open>system_prompt\<close> the prompt text that lines 277 to 300 of app.py format from the
  context documents.
\<close>

datatype value_error =
    OpenAINotInitialized
  | InvalidApiKey
  | InsufficientQuota
  | RateLimitExceeded
  | EmbeddingModelNotFound
  | EmbeddingError string
  | SupabaseNotInitialized
  | TableMissing
  | SelectPermissionDenied
  | CheckExistingError string
  | InsertPermissionDenied
  | InsertError string

text \<open>
  One constructor for each \<open>raise ValueError(...)\<close> of ingest.py, in the order of the
  source (lines 113, 125, 131, 137, 143, 148, 253, 268, 273, 279, 324 and 330); the
  argument is the text of the exception that the message quotes.
\<close>

datatype exn = ValueError value_error | Exception string

text \<open>
  The exceptions below \<open>Exception\<close>: a \<open>ValueError\<close> of the program, or any other one,
  with its text. Interrupts are not modelled.
\<close>

definition log_call :: "call \<Rightarrow> world \<Rightarrow> world" where
  "log_call c w = w\<lparr>calls := calls w @ [c]\<rparr>"

definition show_ui :: "ui_event \<Rightarrow> world \<Rightarrow> world" where
  "show_ui e w = w\<lparr>ui := ui w @ [e]\<rparr>"

section \<open>Ingestion (ingest.py)\<close>

definition embedding_error :: "string \<Rightarrow> value_error" where
  \<comment> \<open>Lines 122 to 148: the class of a remote embedding error, from its text.\<close>
  "embedding_error e =
     (let error_msg = lower e
      in if contains ''invalid_api_key'' error_msg \<or> contains ''incorrect api key'' error_msg
         then InvalidApiKey
         else if contains ''insufficient_quota'' error_msg \<or> contains ''billing'' error_msg
         then InsufficientQuota
         else if contains ''rate_limit'' error_msg then RateLimitExceeded
         else if contains ''model'' error_msg \<and> contains ''not found'' error_msg
         then EmbeddingModelNotFound
         else EmbeddingError e)"

definition get_embedding :: "services \<Rightarrow> world \<Rightarrow> string \<Rightarrow> (exn + vector) \<times> world" where
  \<comment> \<open>ingest.py, lines 102 to 148.\<close>
  "get_embedding svc w text =
     (if \<not> openai_ready svc then (Inl (ValueError OpenAINotInitialized), w)
      else (case embeddings_create svc text of
              Inr v \<Rightarrow> (Inr v, log_call (EmbeddingsCreate text) w)
            | Inl e \<Rightarrow> (Inl (ValueError (embedding_error e)), log_call (EmbeddingsCreate text) w)))"

definition get_summary :: "services \<Rightarrow> int \<Rightarrow> world \<Rightarrow> string \<Rightarrow> (exn + string) \<times> world" where
  \<comment> \<open>ingest.py, lines 151 to 192; the second argument is \<open>SUMMARY_PREVIEW_LENGTH\<close>.
      The handler of line 187 also prints a warning for two classes of error.\<close>
  "get_summary svc preview_length w text =
     (if \<not> openai_ready svc
      then (Inr ''Content summary unavailable (OpenAI client not initialized)'', w)
      else (let preview = (if int (length text) > preview_length
                           then slice_to text preview_length @ ''...'' else text);
                user_content = ''Content:'' @ [CHR 0x0A] @ preview
            in case summary_create svc user_content of
                 Inr c \<Rightarrow> (Inr (strip c), log_call (SummaryCompletion user_content) w)
               | Inl e \<Rightarrow>
                   (Inr ''Content summary unavailable'',
                    log_call (SummaryCompletion user_content) w)))"

fun str_nat :: "nat \<Rightarrow> string" where
  \<comment> \<open>The decimal text of a number, as an f-string formats it.\<close>
  "str_nat n = (if n < 10 then [char_of (48 + n)] else str_nat (n div 10) @ [char_of (48 + n mod 10)])"

fun split_lines :: "string \<Rightarrow> string list" where
  \<comment> \<open>\<open>content.split("\n")\<close>\<close>
  "split_lines [] = [[]]"
| "split_lines (c # cs) =
     (if c = CHR 0x0A then [] # split_lines cs
      else (case split_lines cs of
              [] \<Rightarrow> [[c]]
            | l # ls \<Rightarrow> (c # l) # ls))"

fun first_header :: "string list \<Rightarrow> string option" where
  \<comment> \<open>The loop of lines 210 to 215 of ingest.py.\<close>
  "first_header [] = None"
| "first_header (l # ls) =
     (let line = strip l
      in if take 2 line = ''# '' then Some (strip (drop 2 line))
         else if take 1 line = ''#'' then Some (strip (drop 1 line))
         else first_header ls)"

definition extract_title_from_markdown :: "services \<Rightarrow> string \<Rightarrow> string \<Rightarrow> string" where
  "extract_title_from_markdown svc file_content fname =
     (case first_header (take 10 (split_lines file_content)) of
        Some t \<Rightarrow> t
      | None \<Rightarrow> filename_title svc fname)"

record md_file =
  name :: string
  read_text :: "string + string"

text \<open>
  A file of the data directory: its name and what reading it yields, the text of the
  exception (\<open>Inl\<close>) or the content.
\<close>

definition is_duplicate :: "string \<Rightarrow> bool" where
  \<comment> \<open>Line 320, on the text of the exception of an insert.\<close>
  "is_duplicate e = (contains ''duplicate key'' (lower e) \<or> contains ''unique constraint'' (lower e))"

definition insert_chunk :: "services \<Rightarrow> world \<Rightarrow> row \<Rightarrow> nat \<Rightarrow> (exn + nat) \<times> world" where
  \<comment> \<open>Lines 314 to 330: the insert and its handler; the result is the counter
      \<open>successful\<close>.\<close>
  "insert_chunk svc w data successful =
     (case insert_fault svc (rows w) data of
        None \<Rightarrow> (Inr (successful + 1), log_call (Insert data) (w\<lparr>rows := rows w @ [data]\<rparr>))
      | Some e \<Rightarrow>
          (if is_duplicate e then (Inr (successful + 1), log_call (Insert data) w)
           else if contains ''permission denied'' (lower e)
           then (Inl (ValueError InsertPermissionDenied), log_call (Insert data) w)
           else (Inl (ValueError (InsertError e)), log_call (Insert data) w)))"

definition process_chunk ::
  "services \<Rightarrow> int \<Rightarrow> md_file \<Rightarrow> string \<Rightarrow> nat \<Rightarrow> world \<Rightarrow> nat \<times> string \<Rightarrow> nat
     \<Rightarrow> (exn + nat) \<times> world" where
  \<comment> \<open>Lines 289 to 333, the body of the \<open>try\<close> of one round of the chunk loop.
      \<open>asyncio.gather\<close> starts both calls and raises the exception of the embedding.\<close>
  "process_chunk svc preview_length f doc_title n_chunks w ic successful =
     (let chunk_num = fst ic; chunk = snd ic;
          (e_res, w1) = get_embedding svc w chunk;
          (s_res, w2) = get_summary svc preview_length w1 chunk
      in case e_res of
           Inl x \<Rightarrow> (Inl x, w2)
         | Inr emb \<Rightarrow>
             (case s_res of
                Inl x \<Rightarrow> (Inl x, w2)
              | Inr summ \<Rightarrow>
                  insert_chunk svc w2
                    \<lparr>url = ''file://'' @ name f,
                     chunk_number = chunk_num,
                     title = (if chunk_num = 0 then doc_title
                              else doc_title @ '' - Part '' @ str_nat (chunk_num + 1)),
                     summary = summ,
                     content = chunk,
                     filename = name f,
                     chunk_size = length chunk,
                     total_chunks = n_chunks,
                     ingested_at = clock svc (length (calls w2)),
                     embedding = emb,
                     source = ''markdown_file''\<rparr>
                    successful))"

fun process_chunks ::
  "services \<Rightarrow> int \<Rightarrow> md_file \<Rightarrow> string \<Rightarrow> nat \<Rightarrow> (nat \<times> string) list \<Rightarrow> nat \<Rightarrow> world
     \<Rightarrow> (exn + nat) \<times> world" where
  \<comment> \<open>The loop of lines 287 to 341: a \<open>ValueError\<close> is raised again, any other
      exception skips the chunk.\<close>
  "process_chunks svc preview_length f doc_title n_chunks [] successful w = (Inr successful, w)"
| "process_chunks svc preview_length f doc_title n_chunks (ic # rest) successful w =
     (case process_chunk svc preview_length f doc_title n_chunks w ic successful of
        (Inr successful', w') \<Rightarrow>
          process_chunks svc preview_length f doc_title n_chunks rest successful' w'
      | (Inl (ValueError v), w') \<Rightarrow> (Inl (ValueError v), w')
      | (Inl (Exception e), w') \<Rightarrow>
          process_chunks svc preview_length f doc_title n_chunks rest successful w')"

definition check_existing_error :: "string \<Rightarrow> value_error" where
  \<comment> \<open>Lines 266 to 279.\<close>
  "check_existing_error e =
     (let error_msg = lower e
      in if contains ''relation'' error_msg \<and> contains ''does not exist'' error_msg
         then TableMissing
         else if contains ''permission denied'' error_msg \<or> contains ''row-level security'' error_msg
         then SelectPermissionDenied
         else CheckExistingError e)"

definition process_file_body ::
  "services \<Rightarrow> int \<Rightarrow> int \<Rightarrow> world \<Rightarrow> md_file \<Rightarrow> (exn + bool) \<times> world" where
  \<comment> \<open>Lines 236 to 344, the body of the outer \<open>try\<close>. The second and third arguments
      are \<open>MAX_CHUNK_SIZE\<close> and \<open>SUMMARY_PREVIEW_LENGTH\<close>.\<close>
  "process_file_body svc cfg_max preview_length w f =
     (case read_text f of
        Inl e \<Rightarrow> (Inl (Exception e), w)
      | Inr text \<Rightarrow>
          if strip text = [] then (Inr False, w)
          else if \<not> supabase_ready svc then (Inl (ValueError SupabaseNotInitialized), w)
          else (case select_fault svc (rows w) (''file://'' @ name f) of
                  Some e \<Rightarrow>
                    (Inl (ValueError (check_existing_error e)),
                     log_call (SelectUrl (''file://'' @ name f)) w)
                | None \<Rightarrow>
                    if filter (\<lambda>r. url r = ''file://'' @ name f) (rows w) \<noteq> []
                    then (Inr True, log_call (SelectUrl (''file://'' @ name f)) w)
                    else (let chunks = chunk_text cfg_max text None
                          in case process_chunks svc preview_length f
                                    (extract_title_from_markdown svc text (name f))
                                    (length chunks) (enumerate 0 chunks) 0
                                    (log_call (SelectUrl (''file://'' @ name f)) w) of
                               (Inl x, w') \<Rightarrow> (Inl x, w')
                             | (Inr successful, w') \<Rightarrow> (Inr (successful > 0), w'))))"

definition process_file :: "services \<Rightarrow> int \<Rightarrow> int \<Rightarrow> world \<Rightarrow> md_file \<Rightarrow> bool \<times> world" where
  \<comment> \<open>Lines 235 to 348: the handler of line 346 turns every exception into \<open>False\<close>.\<close>
  "process_file svc cfg_max preview_length w f =
     (case process_file_body svc cfg_max preview_length w f of
        (Inr b, w') \<Rightarrow> (b, w')
      | (Inl (ValueError v), w') \<Rightarrow> (False, w')
      | (Inl (Exception e), w') \<Rightarrow> (False, w'))"

definition endswith :: "string \<Rightarrow> string \<Rightarrow> bool" where
  "endswith s suffix = (length suffix \<le> length s \<and> drop (length s - length suffix) s = suffix)"

definition fetch_stats :: "services \<Rightarrow> world \<Rightarrow> world" where
  \<comment> \<open>Lines 397 to 409: two queries for the final figures; an exception is printed.\<close>
  "fetch_stats svc w =
     (if \<not> supabase_ready svc then w
      else (case stats_fault svc (rows w) of
              Some e \<Rightarrow> log_call SelectAll w
            | None \<Rightarrow> log_call SelectAll (log_call SelectAll w)))"

fun process_files ::
  "services \<Rightarrow> int \<Rightarrow> int \<Rightarrow> md_file list \<Rightarrow> nat \<times> nat \<Rightarrow> world \<Rightarrow> (nat \<times> nat) \<times> world" where
  \<comment> \<open>The loop of lines 381 to 386 on the counters (successful, failed).\<close>
  "process_files svc cfg_max preview_length [] counts w = (counts, w)"
| "process_files svc cfg_max preview_length (f # fs) counts w =
     (case process_file svc cfg_max preview_length w f of
        (True, w') \<Rightarrow>
          process_files svc cfg_max preview_length fs (fst counts + 1, snd counts) w'
      | (False, w') \<Rightarrow>
          process_files svc cfg_max preview_length fs (fst counts, snd counts + 1) w')"

definition main ::
  "services \<Rightarrow> int \<Rightarrow> int \<Rightarrow> world \<Rightarrow> md_file list option \<Rightarrow> (exn + nat \<times> nat) \<times> world" where
  \<comment> \<open>ingest.py, lines 351 to 409. The directory is \<open>None\<close> when it does not exist;
      the result is the pair of counters that the final summary prints.\<close>
  "main svc cfg_max preview_length w data_dir =
     (case data_dir of
        None \<Rightarrow> (Inr (0, 0), w)
      | Some files \<Rightarrow>
          (let markdown_files = filter (\<lambda>f. endswith (name f) ''.md'') files
                                @ filter (\<lambda>f. endswith (name f) ''.markdown'') files
           in if markdown_files = [] then (Inr (0, 0), w)
              else (case process_files svc cfg_max preview_length markdown_files (0, 0) w of
                      (counts, w') \<Rightarrow> (Inr counts, fetch_stats svc w'))))"

record startup =
  env_valid :: bool
  clients_created :: bool
  supabase_valid :: bool
  openai_valid :: bool

text \<open>
  The outcomes of the checks that the script runs before the ingestion (lines 416 to
  448): the environment variables, the construction of the two clients, and the two
  connection tests of validate\_setup.py.
\<close>

definition ingest_script ::
  "startup \<Rightarrow> services \<Rightarrow> int \<Rightarrow> int \<Rightarrow> world \<Rightarrow> md_file list option \<Rightarrow> int \<times> world" where
  \<comment> \<open>Lines 412 to 463; the first component is the exit status of the process.\<close>
  "ingest_script st svc cfg_max preview_length w data_dir =
     (if \<not> env_valid st then (1, w)
      else if \<not> clients_created st then (1, w)
      else if \<not> supabase_valid st then (1, w)
      else if \<not> openai_valid st then (1, w)
      else (case main (svc\<lparr>openai_ready := True, supabase_ready := True\<rparr>)
                   cfg_max preview_length w data_dir of
              (Inl (ValueError v), w') \<Rightarrow> (1, w')
            | (Inl (Exception e), w') \<Rightarrow> (1, w')
            | (Inr counts, w') \<Rightarrow> (0, w')))"

section \<open>The query path (app.py)\<close>

definition embedding_diagnostic :: "string \<Rightarrow> ui_event" where
  \<comment> \<open>app.py, lines 149 to 158.\<close>
  "embedding_diagnostic e =
     (let error_msg = lower e
      in if contains ''invalid_api_key'' error_msg then StError DiagInvalidKey
         else if contains ''insufficient_quota'' error_msg \<or> contains ''billing'' error_msg
         then StError DiagQuota
         else if contains ''rate_limit'' error_msg then StWarning DiagRateLimit
         else StError (DiagEmbedding e))"

definition no_client_text :: "string \<Rightarrow> string" where
  \<comment> \<open>The text of the \<open>AttributeError\<close> of an attribute read on \<open>None\<close>.\<close>
  "no_client_text attr =
     [CHR 0x27] @ ''NoneType'' @ [CHR 0x27] @ '' object has no attribute '' @ [CHR 0x27]
       @ attr @ [CHR 0x27]"

definition app_get_embedding :: "services \<Rightarrow> world \<Rightarrow> string \<Rightarrow> (exn + vector) \<times> world" where
  \<comment> \<open>\<open>get_embedding\<close> of app.py, lines 135 to 159.\<close>
  "app_get_embedding svc w text =
     (if \<not> openai_ready svc
      then (Inr (replicate 1536 0),
            show_ui (embedding_diagnostic (no_client_text ''embeddings'')) w)
      else (case embeddings_create svc text of
              Inr v \<Rightarrow> (Inr v, log_call (EmbeddingsCreate text) w)
            | Inl e \<Rightarrow>
                (Inr (replicate 1536 0),
                 show_ui (embedding_diagnostic e) (log_call (EmbeddingsCreate text) w))))"

definition rpc_diagnostic :: "string \<Rightarrow> ui_event" where
  \<comment> \<open>app.py, lines 207 to 222.\<close>
  "rpc_diagnostic e =
     (let error_msg = lower e
      in if contains ''function'' error_msg \<and> contains ''does not exist'' error_msg
         then StError DiagFunctionMissing
         else if contains ''vector'' error_msg \<and> contains ''does not exist'' error_msg
         then StError DiagVectorMissing
         else StError (DiagRpc e))"

definition similarity_or_0 :: "doc \<Rightarrow> json" where
  \<comment> \<open>\<open>doc.get("similarity", 0)\<close>\<close>
  "similarity_or_0 d = (case similarity d of None \<Rightarrow> Number 0 | Some x \<Rightarrow> x)"

definition as_number :: "json \<Rightarrow> real option" where
  \<comment> \<open>The number that \<open>>=\<close> compares with a float: a boolean counts as 1 or 0, and a
      value that is no number has none, the comparison raising \<open>TypeError\<close>.\<close>
  "as_number j =
     (case j of
        Number x \<Rightarrow> Some x
      | Boolean b \<Rightarrow> Some (if b then 1 else 0)
      | NotNumber \<Rightarrow> None)"

definition similarity_value :: "doc \<Rightarrow> real" where
  \<comment> \<open>The similarity of a candidate as a number, 0 where it has none.\<close>
  "similarity_value d = (case as_number (similarity_or_0 d) of None \<Rightarrow> 0 | Some x \<Rightarrow> x)"

fun filter_by_threshold :: "real \<Rightarrow> doc list \<Rightarrow> exn + doc list" where
  \<comment> \<open>The comprehension of app.py, lines 232 to 235: every candidate is compared, and a
      comparison that raises ends it.\<close>
  "filter_by_threshold similarity_threshold [] = Inr []"
| "filter_by_threshold similarity_threshold (d # ds) =
     (case as_number (similarity_or_0 d) of
        None \<Rightarrow> Inl (Exception ''>= not supported between instances'')
      | Some x \<Rightarrow>
          (case filter_by_threshold similarity_threshold ds of
             Inl e \<Rightarrow> Inl e
           | Inr rest \<Rightarrow> Inr (if x \<ge> similarity_threshold then d # rest else rest)))"

definition retrieve_relevant_documents ::
  "services \<Rightarrow> world \<Rightarrow> string \<Rightarrow> int \<Rightarrow> real \<Rightarrow> (exn + doc list) \<times> world" where
  \<comment> \<open>app.py, lines 187 to 251. Numbers are compared as reals; an exception of the
      comparison is caught by the handler of line 248.\<close>
  "retrieve_relevant_documents svc w query max_results similarity_threshold =
     (case app_get_embedding svc w query of
        (Inl x, w1) \<Rightarrow> (Inr [], w1)
      | (Inr query_embedding, w1) \<Rightarrow>
          (let w2 = log_call (RpcMatchDocuments query_embedding (max_results * 2)
                                similarity_threshold) w1
           in case rpc_match_documents svc query_embedding (max_results * 2)
                     similarity_threshold of
                Inl e \<Rightarrow> (Inr [], show_ui (rpc_diagnostic e) w2)
              | Inr data \<Rightarrow>
                  if data = [] then (Inr [], w2)
                  else (case filter_by_threshold similarity_threshold data of
                          Inl x \<Rightarrow> (Inr [], w2)
                        | Inr filtered \<Rightarrow>
                            if filtered = [] \<and> data \<noteq> [] then (Inr (slice_to data 2), w2)
                            else (Inr (slice_to filtered max_results), w2))))"

datatype answer =
    Text string
  | ErrInvalidKey
  | ErrQuota
  | ErrRateLimit
  | ErrModelNotFound
  | ErrGenerating string

text \<open>
  What \<open>generate_response\<close> returns: a text, or one of the five error messages of
  lines 318 to 326 of app.py, which start with a symbol beyond the code points of
  \<open>string\<close>.
\<close>

definition response_error :: "string \<Rightarrow> answer" where
  \<comment> \<open>app.py, lines 315 to 326.\<close>
  "response_error e =
     (let error_msg = lower e
      in if contains ''invalid_api_key'' error_msg then ErrInvalidKey
         else if contains ''insufficient_quota'' error_msg \<or> contains ''billing'' error_msg
         then ErrQuota
         else if contains ''rate_limit'' error_msg then ErrRateLimit
         else if contains ''model'' error_msg \<and> contains ''not found'' error_msg
         then ErrModelNotFound
         else ErrGenerating e)"

definition generate_response ::
  "services \<Rightarrow> world \<Rightarrow> string \<Rightarrow> doc list \<Rightarrow> (exn + answer) \<times> world" where
  \<comment> \<open>app.py, lines 270 to 326.\<close>
  "generate_response svc w query context_documents =
     (if context_documents = []
      then (Inr (Text (''I couldn't find relevant information in the knowledge base ''
                       @ ''to answer your question.'')), w)
      else if \<not> openai_ready svc then (Inr (response_error (no_client_text ''chat'')), w)
      else (case answer_create svc (system_prompt svc context_documents) query of
              Inr response_text \<Rightarrow>
                (Inr (Text response_text),
                 log_call (AnswerCompletion (system_prompt svc context_documents) query) w)
            | Inl e \<Rightarrow>
                (Inr (response_error e),
                 log_call (AnswerCompletion (system_prompt svc context_documents) query) w)))"

section \<open>Concrete environments\<close>

definition svc_ok :: services where
  \<comment> \<open>Every service answers; the store is searched without result.\<close>
  "svc_ok =
     \<lparr>openai_ready = True,
      supabase_ready = True,
      embeddings_create = (\<lambda>t. Inr [1, 0]),
      summary_create = (\<lambda>t. Inr ''A summary.''),
      answer_create = (\<lambda>p q. Inr ''An answer.''),
      select_fault = (\<lambda>rs u. None),
      insert_fault = (\<lambda>rs r. None),
      stats_fault = (\<lambda>rs. None),
      rpc_match_documents = (\<lambda>v k t. Inr []),
      clock = (\<lambda>n. ''2026-01-01T00:00:00+00:00''),
      filename_title = (\<lambda>n. n),
      system_prompt = (\<lambda>ds. ''Context Documents:'')\<rparr>"

definition svc_bad_key :: services where
  \<comment> \<open>The embedding service refuses the key.\<close>
  "svc_bad_key = svc_ok\<lparr>embeddings_create := (\<lambda>t. Inl ''Error code: 401 - invalid_api_key'')\<rparr>"

definition svc_no_quota :: services where
  \<comment> \<open>The account of the embedding service has no quota left.\<close>
  "svc_no_quota = svc_ok\<lparr>embeddings_create := (\<lambda>t. Inl ''Error code: 429 - insufficient_quota'')\<rparr>"

definition svc_no_summary :: services where
  \<comment> \<open>The completion service times out on every summary.\<close>
  "svc_no_summary = svc_ok\<lparr>summary_create := (\<lambda>t. Inl ''Request timed out.'')\<rparr>"

definition svc_duplicate :: services where
  \<comment> \<open>The store refuses every insert as a duplicate.\<close>
  "svc_duplicate =
     svc_ok\<lparr>insert_fault :=
       (\<lambda>rs r. Some ''duplicate key value violates unique constraint'')\<rparr>"

definition candidate :: "real \<Rightarrow> doc" where
  "candidate x = \<lparr>similarity = Some (Number x), other_keys = []\<rparr>"

definition null_candidate :: doc where
  \<comment> \<open>A candidate whose similarity is null.\<close>
  "null_candidate = \<lparr>similarity = Some NotNumber, other_keys = []\<rparr>"

definition svc_null :: services where
  \<comment> \<open>The store answers with a candidate below the threshold and one without a number.\<close>
  "svc_null = svc_ok\<lparr>rpc_match_documents := (\<lambda>v k t. Inr [candidate 0.1, null_candidate])\<rparr>"

definition svc_by_vector :: services where
  \<comment> \<open>A store whose answer depends on the query vector.\<close>
  "svc_by_vector =
     svc_ok\<lparr>rpc_match_documents :=
       (\<lambda>v k t. if v = [1, 0] then Inr [candidate 0.15, candidate 0.1, candidate 0.05]
                 else Inr [])\<rparr>"

definition model_dimensions :: "string \<Rightarrow> nat option" where
  \<comment> \<open>The length of the vectors that the embedding service returns for its models. The
      repository has no such table: its one dimensionality is the 1536 of app.py line 159
      and validate\_setup.py line 127.\<close>
  "model_dimensions m =
     (if m = ''text-embedding-3-small'' then Some 1536
      else if m = ''text-embedding-3-large'' then Some 3072
      else if m = ''text-embedding-ada-002'' then Some 1536
      else None)"

definition env_large :: environ where
  \<comment> \<open>An environment that configures the larger embedding model.\<close>
  "env_large = [''EMBEDDING_MODEL'' \<mapsto> ''text-embedding-3-large'']"

definition svc_low :: services where
  \<comment> \<open>The store of the scenario: three candidates below the threshold 0.3.\<close>
  "svc_low =
     svc_ok\<lparr>rpc_match_documents :=
       (\<lambda>v k t. Inr [candidate 0.1, candidate 0.15, candidate 0.05])\<rparr>"

definition svc_low_sorted :: services where
  "svc_low_sorted =
     svc_ok\<lparr>rpc_match_documents :=
       (\<lambda>v k t. Inr [candidate 0.15, candidate 0.1, candidate 0.05])\<rparr>"

definition svc_one :: services where
  "svc_one = svc_ok\<lparr>rpc_match_documents := (\<lambda>v k t. Inr [candidate 0.1])\<rparr>"

definition svc_bad_key_store :: services where
  \<comment> \<open>The embedding service refuses the key and the store has a candidate.\<close>
  "svc_bad_key_store =
     svc_bad_key\<lparr>rpc_match_documents := (\<lambda>v k t. Inr [candidate 0.5])\<rparr>"

definition w0 :: world where
  "w0 = \<lparr>rows = [], calls = [], ui = []\<rparr>"

definition notes_md :: md_file where
  "notes_md = \<lparr>name = ''notes.md'', read_text = Inr ''# Notes''\<rparr>"

definition guide_md :: md_file where
  "guide_md = \<lparr>name = ''guide.md'', read_text = Inr ''# Guide''\<rparr>"

definition all_valid :: startup where
  "all_valid =
     \<lparr>env_valid = True, clients_created = True, supabase_valid = True, openai_valid = True\<rparr>"

definition notes_row :: row where
  "notes_row =
     \<lparr>url = ''file://notes.md'', chunk_number = 0, title = ''Notes'', summary = ''A summary.'',
      content = ''# Notes'', filename = ''notes.md'', chunk_size = 7, total_chunks = 1,
      ingested_at = ''2026-01-01T00:00:00+00:00'', embedding = [1, 0],
      source = ''markdown_file''\<rparr>"

section \<open>Properties of the chunker\<close>





lemma chunk_text_default: "chunk_text cfg text None = chunk_text cfg text (Some cfg)"
  by (simp add: chunk_text_def)




text \<open>
  Claim C10. \<open>chunk_text\<close> never returns the empty list, whatever the text (empty and
  whitespace-only texts included) and the size; when the text is longer than a positive
  \<open>max_size\<close> and the packing of its paragraphs yields no chunk, the result is the single
  chunk \<open>text[:max_size]\<close>.
\<close>

theorem chunk_text_nonempty:
  "chunk_text cfg text arg \<noteq> [] \<and>
   (0 < max_size \<and> int (length text) > max_size \<and> pack max_size (split_blank text) = [] \<longrightarrow>
      chunk_text cfg text (Some max_size) = [take (nat max_size) text])"
  by (simp add: chunk_text_def Let_def slice_to_def)

theorem chunk_text_nonempty_witness:
  "chunk_text 8000 [CHR 0x0A, CHR 0x0A, CHR 0x0A, CHR 0x0A] (Some 2) = [[CHR 0x0A, CHR 0x0A]] \<and>
   chunk_text 8000 [] (Some 2) \<noteq> [] \<and>
   chunk_text 8000 ''   '' (Some 2) \<noteq> []"
proof -
  have sp: "split_blank [CHR 0x0A, CHR 0x0A, CHR 0x0A, CHR 0x0A] = [[], [], []]"
    by simp
  have pk: "pack 2 [[], [], []] = []"
    by (simp add: pack_def pack_step_def)
  have pre: "(0::int) < 2 \<and> int (length [CHR 0x0A, CHR 0x0A, CHR 0x0A, CHR 0x0A]) > 2 \<and>
      pack 2 (split_blank [CHR 0x0A, CHR 0x0A, CHR 0x0A, CHR 0x0A]) = []"
    by (simp add: sp pk)
  from chunk_text_nonempty [of 8000 "[CHR 0x0A, CHR 0x0A, CHR 0x0A, CHR 0x0A]" "Some 2" 2]
  have "(0::int) < 2 \<and> int (length [CHR 0x0A, CHR 0x0A, CHR 0x0A, CHR 0x0A]) > 2 \<and>
      pack 2 (split_blank [CHR 0x0A, CHR 0x0A, CHR 0x0A, CHR 0x0A]) = [] \<longrightarrow>
      chunk_text 8000 [CHR 0x0A, CHR 0x0A, CHR 0x0A, CHR 0x0A] (Some 2) =
        [take (nat 2) [CHR 0x0A, CHR 0x0A, CHR 0x0A, CHR 0x0A]]"
    by (rule conjunct2)
  with pre have a: "chunk_text 8000 [CHR 0x0A, CHR 0x0A, CHR 0x0A, CHR 0x0A] (Some 2) =
      [take (nat 2) [CHR 0x0A, CHR 0x0A, CHR 0x0A, CHR 0x0A]]"
    by (rule rev_mp)
  have b: "chunk_text 8000 [] (Some 2) \<noteq> []"
    using chunk_text_nonempty [of 8000 "[]" "Some 2" 2] by (rule conjunct1)
  have c: "chunk_text 8000 ''   '' (Some 2) \<noteq> []"
    using chunk_text_nonempty [of 8000 "''   ''" "Some 2" 2] by (rule conjunct1)
  from a b c show ?thesis by simp
qed

text \<open>
  Claim C9, as the code has it. With no environment override, the constant
  \<open>MAX_CHUNK_SIZE\<close> of the configuration module that ingest.py imports is 8000, and a
  call of \<open>chunk_text\<close> without a size uses that constant; the value 5000 is the default
  of the second configuration module, src/config.py.
\<close>

theorem max_chunk_size_default:
  assumes "env ''MAX_CHUNK_SIZE'' = None"
  shows "MAX_CHUNK_SIZE env = Some 8000 \<and>
         chunk_text 8000 text None = chunk_text 8000 text (Some 8000) \<and>
         src_MAX_CHUNK_SIZE env = Some 5000"
  using assms
  by (simp add: MAX_CHUNK_SIZE_def src_MAX_CHUNK_SIZE_def getenv_def py_int_def int_space_def
      is_digit_def chunk_text_default)

theorem max_chunk_size_default_witness:
  "MAX_CHUNK_SIZE Map.empty = Some 8000 \<and>
   chunk_text 8000 ''abc'' None = chunk_text 8000 ''abc'' (Some 8000)"
  using max_chunk_size_default [of Map.empty "''abc''"] by simp

text \<open>
  The claim as stated fails: with no override the constant is not 5000, and a text of
  5001 characters is returned whole by a call without a size.
\<close>

theorem max_chunk_size_default_counterexample:
  "MAX_CHUNK_SIZE Map.empty \<noteq> Some 5000 \<and>
   chunk_text 8000 (replicate 5001 (CHR ''a'')) None = [replicate 5001 (CHR ''a'')]"
  by (simp add: MAX_CHUNK_SIZE_def getenv_def py_int_def int_space_def is_digit_def
      chunk_text_def)

section \<open>Properties of the query path\<close>

text \<open>
  Claim C6. With an empty list of context documents \<open>generate_response\<close> returns the
  fixed message that no relevant information was found, and issues no remote call: the
  trace of calls, like the rest of the state, is unchanged.
\<close>

theorem generate_response_empty_context:
  "generate_response svc w query [] =
     (Inr (Text ''I couldn't find relevant information in the knowledge base to answer your question.''), w) \<and>
   calls (snd (generate_response svc w query [])) = calls w"
  by (simp add: generate_response_def)

text \<open>
  Claim C8, as the code has it. In the query path \<open>get_embedding\<close> never raises; when
  the remote call fails, whatever the text and the error, it returns the vector of 1536
  zeros, whatever embedding model is configured. So the length of that vector is the
  dimensionality of the configured model exactly when that dimensionality is 1536; with
  no environment override the model is \<open>text-embedding-3-small\<close>.
\<close>

theorem app_get_embedding_zero_vector:
  "(\<exists>v. fst (app_get_embedding svc w text) = Inr v) \<and>
   (embeddings_create svc text = Inl e \<or> \<not> openai_ready svc \<longrightarrow>
      fst (app_get_embedding svc w text) = Inr (replicate 1536 0) \<and>
      length (replicate 1536 (0::real)) = 1536 \<and>
      ((dims (EMBEDDING_MODEL env) = Some (length (replicate 1536 (0::real))))
         = (dims (EMBEDDING_MODEL env) = Some 1536))) \<and>
   (env ''EMBEDDING_MODEL'' = None \<longrightarrow> EMBEDDING_MODEL env = ''text-embedding-3-small'')"
  by (auto simp add: app_get_embedding_def EMBEDDING_MODEL_def getenv_def split: sum.splits)

theorem app_get_embedding_zero_vector_witness:
  "embeddings_create svc_bad_key ''refund policy'' = Inl ''Error code: 401 - invalid_api_key'' \<and>
   fst (app_get_embedding svc_bad_key w0 ''refund policy'') = Inr (replicate 1536 0) \<and>
   EMBEDDING_MODEL Map.empty = ''text-embedding-3-small'' \<and>
   model_dimensions (EMBEDDING_MODEL Map.empty) = Some (length (replicate 1536 (0::real)))"
proof -
  have pre: "embeddings_create svc_bad_key ''refund policy''
      = Inl ''Error code: 401 - invalid_api_key''"
    by (simp add: svc_bad_key_def svc_ok_def)
  note inst = app_get_embedding_zero_vector [of svc_bad_key w0 "''refund policy''"
      "''Error code: 401 - invalid_api_key''" model_dimensions Map.empty]
  from inst pre
  have a: "fst (app_get_embedding svc_bad_key w0 ''refund policy'') = Inr (replicate 1536 0)"
    by blast
  from inst have b: "EMBEDDING_MODEL Map.empty = ''text-embedding-3-small''"
    by simp
  have "model_dimensions ''text-embedding-3-small'' = Some 1536"
    by (simp add: model_dimensions_def)
  with inst pre b
  have c: "model_dimensions (EMBEDDING_MODEL Map.empty) = Some (length (replicate 1536 (0::real)))"
    by simp
  from pre a b c show ?thesis by blast
qed

text \<open>
  The claim as stated fails: when the environment configures the model
  \<open>text-embedding-3-large\<close>, whose vectors have 3072 entries, a failed call still
  yields 1536 zeros.
\<close>

theorem app_get_embedding_zero_vector_counterexample:
  "EMBEDDING_MODEL env_large = ''text-embedding-3-large'' \<and>
   embeddings_create svc_bad_key ''refund policy'' = Inl ''Error code: 401 - invalid_api_key'' \<and>
   fst (app_get_embedding svc_bad_key w0 ''refund policy'') = Inr (replicate 1536 0) \<and>
   model_dimensions (EMBEDDING_MODEL env_large) = Some 3072 \<and>
   length (replicate 1536 (0::real)) \<noteq> 3072"
  by (simp add: EMBEDDING_MODEL_def getenv_def env_large_def model_dimensions_def
      app_get_embedding_def svc_bad_key_def svc_ok_def)

lemma app_get_embedding_Inr: "\<exists>v w'. app_get_embedding svc w text = (Inr v, w')"
  by (auto simp add: app_get_embedding_def split: sum.splits)

lemma filter_by_threshold_numbers:
  assumes "\<forall>d \<in> set data. as_number (similarity_or_0 d) \<noteq> None"
  shows "filter_by_threshold thr data = Inr (filter (\<lambda>d. thr \<le> similarity_value d) data)"
  using assms
  by (induction data) (auto simp add: similarity_value_def)

lemma filter_by_threshold_Inr:
  "filter_by_threshold thr data = Inr r \<Longrightarrow> d \<in> set data \<Longrightarrow>
     as_number (similarity_or_0 d) \<noteq> None"
proof (induction data arbitrary: r)
  case Nil
  then show ?case by simp
next
  case (Cons a data)
  from Cons.prems(1) obtain x where a: "as_number (similarity_or_0 a) = Some x"
    by (cases "as_number (similarity_or_0 a)") auto
  with Cons.prems(1) obtain rest where "filter_by_threshold thr data = Inr rest"
    by (cases "filter_by_threshold thr data") auto
  with Cons.IH Cons.prems(2) a show ?case by auto
qed

lemma filter_by_threshold_raises:
  assumes "\<exists>d \<in> set data. as_number (similarity_or_0 d) = None"
  shows "\<exists>x. filter_by_threshold thr data = Inl x"
proof (cases "filter_by_threshold thr data")
  case (Inl x)
  then show ?thesis by blast
next
  case (Inr r)
  with assms filter_by_threshold_Inr show ?thesis by blast
qed

lemma retrieve_fallback_result:
  assumes emb: "fst (app_get_embedding svc w query) = Inr v"
    and store: "rpc_match_documents svc v (max_results * 2) thr = Inr data"
    and some: "data \<noteq> []"
    and low: "\<forall>d \<in> set data. as_number (similarity_or_0 d) \<noteq> None \<and> similarity_value d < thr"
  shows "fst (retrieve_relevant_documents svc w query max_results thr) = Inr (take 2 data)"
proof -
  from emb obtain w1 where e: "app_get_embedding svc w query = (Inr v, w1)"
    by (cases "app_get_embedding svc w query") auto
  from low have "filter (\<lambda>d. thr \<le> similarity_value d) data = []"
    by (auto simp add: filter_empty_conv)
  with low have none: "filter_by_threshold thr data = Inr []"
    by (simp add: filter_by_threshold_numbers)
  from e store some none show ?thesis
    by (simp add: retrieve_relevant_documents_def Let_def slice_to_def)
qed

lemma retrieve_not_number:
  assumes emb: "fst (app_get_embedding svc w query) = Inr v"
    and store: "rpc_match_documents svc v (max_results * 2) thr = Inr data"
    and bad: "\<exists>d \<in> set data. as_number (similarity_or_0 d) = None"
  shows "fst (retrieve_relevant_documents svc w query max_results thr) = Inr []"
proof -
  from emb obtain w1 where e: "app_get_embedding svc w query = (Inr v, w1)"
    by (cases "app_get_embedding svc w query") auto
  from bad obtain x where "filter_by_threshold thr data = Inl x"
    using filter_by_threshold_raises by blast
  with e store show ?thesis
    by (simp add: retrieve_relevant_documents_def Let_def)
qed

lemma sorted_wrt_take_drop:
  assumes "sorted_wrt P xs"
  shows "\<forall>r \<in> set (take n xs). \<forall>d \<in> set (drop n xs). P r d"
proof -
  from assms have "sorted_wrt P (take n xs @ drop n xs)" by simp
  then show ?thesis unfolding sorted_wrt_append by blast
qed

text \<open>
  Claim C3, as the code has it. Let the store answer the search for the vector of the
  query with at least one candidate. When every similarity is a number (or is absent,
  which counts as 0) and none reaches the threshold, \<open>retrieve_relevant_documents\<close>
  returns the first two candidates of the store's list, in the store's order: one or
  two results, never none and never more; they are the two most similar candidates, most
  similar first, when the store's list is sorted by descending similarity. When the
  similarity of some candidate is present and is no number, the comparison raises and
  the result is the empty list.
\<close>

theorem retrieve_fallback:
  assumes "fst (app_get_embedding svc w query) = Inr v"
    and "rpc_match_documents svc v (max_results * 2) thr = Inr data"
    and "data \<noteq> []"
  shows "((\<forall>d \<in> set data. as_number (similarity_or_0 d) \<noteq> None \<and> similarity_value d < thr) \<longrightarrow>
            fst (retrieve_relevant_documents svc w query max_results thr) = Inr (take 2 data) \<and>
            1 \<le> length (take 2 data) \<and> length (take 2 data) \<le> 2 \<and>
            (sorted_wrt (\<lambda>a b. similarity_value b \<le> similarity_value a) data \<longrightarrow>
               sorted_wrt (\<lambda>a b. similarity_value b \<le> similarity_value a) (take 2 data) \<and>
               (\<forall>r \<in> set (take 2 data). \<forall>d \<in> set (drop 2 data).
                  similarity_value d \<le> similarity_value r))) \<and>
         ((\<exists>d \<in> set data. as_number (similarity_or_0 d) = None) \<longrightarrow>
            fst (retrieve_relevant_documents svc w query max_results thr) = Inr [])"
proof (intro conjI impI)
  assume low: "\<forall>d \<in> set data. as_number (similarity_or_0 d) \<noteq> None \<and> similarity_value d < thr"
  with assms show "fst (retrieve_relevant_documents svc w query max_results thr) = Inr (take 2 data)"
    by (rule retrieve_fallback_result)
  from assms(3) show "1 \<le> length (take 2 data)"
    by (cases data) simp_all
  show "length (take 2 data) \<le> 2" by simp
  assume sorted: "sorted_wrt (\<lambda>a b. similarity_value b \<le> similarity_value a) data"
  then show "sorted_wrt (\<lambda>a b. similarity_value b \<le> similarity_value a) (take 2 data)"
    by (rule sorted_wrt_take)
  from sorted show "\<forall>r \<in> set (take 2 data). \<forall>d \<in> set (drop 2 data).
      similarity_value d \<le> similarity_value r"
    by (rule sorted_wrt_take_drop)
next
  assume "\<exists>d \<in> set data. as_number (similarity_or_0 d) = None"
  with assms(1,2) show "fst (retrieve_relevant_documents svc w query max_results thr) = Inr []"
    by (rule retrieve_not_number)
qed

lemma candidate_number:
  "as_number (similarity_or_0 (candidate x)) \<noteq> None \<and> similarity_value (candidate x) = x"
  by (simp add: candidate_def similarity_or_0_def similarity_value_def as_number_def)

theorem retrieve_fallback_witness:
  "fst (retrieve_relevant_documents svc_by_vector w0 ''refund policy'' 5 0.3)
     = Inr [candidate 0.15, candidate 0.1] \<and>
   sorted_wrt (\<lambda>a b. similarity_value b \<le> similarity_value a)
     [candidate 0.15, candidate 0.1, candidate 0.05] \<and>
   sorted_wrt (\<lambda>a b. similarity_value b \<le> similarity_value a)
     (take 2 [candidate 0.15, candidate 0.1, candidate 0.05]) \<and>
   fst (retrieve_relevant_documents svc_null w0 ''refund policy'' 5 0.3) = Inr []"
proof -
  have emb: "fst (app_get_embedding svc_by_vector w0 ''refund policy'') = Inr [1, 0]"
    by (simp add: app_get_embedding_def svc_by_vector_def svc_ok_def)
  have store: "rpc_match_documents svc_by_vector [1, 0] (5 * 2) 0.3
      = Inr [candidate 0.15, candidate 0.1, candidate 0.05]"
    by (simp add: svc_by_vector_def svc_ok_def)
  have some: "[candidate 0.15, candidate 0.1, candidate 0.05] \<noteq> []" by simp
  have low: "\<forall>d \<in> set [candidate 0.15, candidate 0.1, candidate 0.05].
      as_number (similarity_or_0 d) \<noteq> None \<and> similarity_value d < 0.3"
    by (simp add: candidate_number del: not_None_eq)
  have sorted: "sorted_wrt (\<lambda>a b. similarity_value b \<le> similarity_value a)
      [candidate 0.15, candidate 0.1, candidate 0.05]"
    by (simp add: candidate_number)
  note inst = retrieve_fallback [OF emb store some]
  from inst low
  have "fst (retrieve_relevant_documents svc_by_vector w0 ''refund policy'' 5 0.3)
      = Inr (take 2 [candidate 0.15, candidate 0.1, candidate 0.05])"
    by blast
  then have a: "fst (retrieve_relevant_documents svc_by_vector w0 ''refund policy'' 5 0.3)
      = Inr [candidate 0.15, candidate 0.1]"
    by simp
  from inst low sorted
  have b: "sorted_wrt (\<lambda>a b. similarity_value b \<le> similarity_value a)
      (take 2 [candidate 0.15, candidate 0.1, candidate 0.05])"
    by blast
  have emb': "fst (app_get_embedding svc_null w0 ''refund policy'') = Inr [1, 0]"
    by (simp add: app_get_embedding_def svc_null_def svc_ok_def)
  have store': "rpc_match_documents svc_null [1, 0] (5 * 2) 0.3
      = Inr [candidate 0.1, null_candidate]"
    by (simp add: svc_null_def svc_ok_def)
  have some': "[candidate 0.1, null_candidate] \<noteq> []" by simp
  have bad: "\<exists>d \<in> set [candidate 0.1, null_candidate]. as_number (similarity_or_0 d) = None"
    by (simp add: null_candidate_def similarity_or_0_def as_number_def)
  from retrieve_fallback [OF emb' store' some'] bad
  have c: "fst (retrieve_relevant_documents svc_null w0 ''refund policy'' 5 0.3) = Inr []"
    by blast
  from a sorted b c show ?thesis by blast
qed

text \<open>
  The claim as stated fails. On the candidates of the scenario, in the order 0.1, 0.15,
  0.05, the result is the first two in that order, not the two most similar first; and
  a store with one candidate below the threshold gives one result, not two.
\<close>

theorem retrieve_fallback_counterexample:
  "fst (retrieve_relevant_documents svc_low w0 ''refund policy'' 5 0.3)
     = Inr [candidate 0.1, candidate 0.15] \<and>
   [candidate 0.1, candidate 0.15] \<noteq> [candidate 0.15, candidate 0.1] \<and>
   fst (retrieve_relevant_documents svc_one w0 ''refund policy'' 5 0.3) = Inr [candidate 0.1]"
  by (simp add: retrieve_relevant_documents_def app_get_embedding_def svc_low_def svc_one_def
      svc_ok_def candidate_def similarity_or_0_def as_number_def slice_to_def Let_def)

text \<open>
  Claim C4, as the code has it. \<open>retrieve_relevant_documents\<close> never raises: it always
  returns a list. When the embedding of the query fails, the store is still searched,
  with the vector of 1536 zeros, and the result is empty when that search fails or
  returns no candidate.
\<close>

theorem retrieve_never_raises:
  "(\<exists>ds. fst (retrieve_relevant_documents svc w query max_results thr) = Inr ds) \<and>
   (embeddings_create svc query = Inl e \<or> \<not> openai_ready svc \<longrightarrow>
      RpcMatchDocuments (replicate 1536 0) (max_results * 2) thr
        \<in> set (calls (snd (retrieve_relevant_documents svc w query max_results thr))) \<and>
      (rpc_match_documents svc (replicate 1536 0) (max_results * 2) thr = Inl e' \<or>
       rpc_match_documents svc (replicate 1536 0) (max_results * 2) thr = Inr [] \<longrightarrow>
         fst (retrieve_relevant_documents svc w query max_results thr) = Inr []))"
proof (intro conjI impI)
  obtain v w1 where emb: "app_get_embedding svc w query = (Inr v, w1)"
    using app_get_embedding_Inr by blast
  then show "\<exists>ds. fst (retrieve_relevant_documents svc w query max_results thr) = Inr ds"
    by (simp add: retrieve_relevant_documents_def Let_def split: sum.splits)
next
  assume fails: "embeddings_create svc query = Inl e \<or> \<not> openai_ready svc"
  then have "\<exists>w1. app_get_embedding svc w query = (Inr (replicate 1536 0), w1)"
    by (cases "openai_ready svc") (auto simp add: app_get_embedding_def)
  then obtain w1 where emb: "app_get_embedding svc w query = (Inr (replicate 1536 0), w1)"
    by blast
  then show "RpcMatchDocuments (replicate 1536 0) (max_results * 2) thr
      \<in> set (calls (snd (retrieve_relevant_documents svc w query max_results thr)))"
    by (simp add: retrieve_relevant_documents_def Let_def log_call_def show_ui_def
        split: sum.splits)
  assume "rpc_match_documents svc (replicate 1536 0) (max_results * 2) thr = Inl e' \<or>
      rpc_match_documents svc (replicate 1536 0) (max_results * 2) thr = Inr []"
  with emb show "fst (retrieve_relevant_documents svc w query max_results thr) = Inr []"
    by (auto simp add: retrieve_relevant_documents_def Let_def)
qed

theorem retrieve_never_raises_witness:
  "embeddings_create svc_bad_key ''refund policy'' = Inl ''Error code: 401 - invalid_api_key'' \<and>
   rpc_match_documents svc_bad_key (replicate 1536 0) (5 * 2) 0.3 = Inr [] \<and>
   fst (retrieve_relevant_documents svc_bad_key w0 ''refund policy'' 5 0.3) = Inr []"
proof -
  have fails: "embeddings_create svc_bad_key ''refund policy''
      = Inl ''Error code: 401 - invalid_api_key''"
    by (simp add: svc_bad_key_def svc_ok_def)
  have empty: "rpc_match_documents svc_bad_key (replicate 1536 0) (5 * 2) 0.3 = Inr []"
    by (simp add: svc_bad_key_def svc_ok_def)
  from retrieve_never_raises [of svc_bad_key w0 "''refund policy''" 5 "0.3"
      "''Error code: 401 - invalid_api_key''" "''''"] fails empty
  have "fst (retrieve_relevant_documents svc_bad_key w0 ''refund policy'' 5 0.3) = Inr []"
    by blast
  with fails empty show ?thesis by blast
qed

text \<open>
  The claim as stated fails: when the embedding service refuses the key and the store
  answers the search with a candidate, the result is that candidate, not the empty list.
\<close>

theorem retrieve_embedding_failure_counterexample:
  "embeddings_create svc_bad_key_store ''refund policy''
     = Inl ''Error code: 401 - invalid_api_key'' \<and>
   fst (retrieve_relevant_documents svc_bad_key_store w0 ''refund policy'' 5 0.3)
     = Inr [candidate 0.5] \<and>
   [candidate 0.5] \<noteq> []"
  by (simp add: retrieve_relevant_documents_def app_get_embedding_def svc_bad_key_store_def
      svc_bad_key_def svc_ok_def candidate_def similarity_or_0_def as_number_def slice_to_def
      Let_def)

section \<open>Properties of the ingestion\<close>

lemma get_summary_Inr: "\<exists>s w'. get_summary svc n w text = (Inr s, w') \<and> rows w' = rows w"
  by (auto simp add: get_summary_def Let_def log_call_def split: sum.splits)

lemma get_summary_failure:
  assumes "openai_ready svc"
    and "summary_create svc
           (''Content:'' @ [CHR 0x0A] @
              (if int (length text) > n then slice_to text n @ ''...'' else text)) = Inl e"
  shows "fst (get_summary svc n w text) = Inr ''Content summary unavailable''"
  using assms by (simp add: get_summary_def Let_def)

lemma process_chunk_summary_failure:
  assumes ready: "openai_ready svc"
    and emb: "embeddings_create svc chunk = Inr v"
    and summ: "summary_create svc
           (''Content:'' @ [CHR 0x0A] @
              (if int (length chunk) > n then slice_to chunk n @ ''...'' else chunk)) = Inl e"
    and ins: "\<forall>r. insert_fault svc (rows w) r = None"
  shows "fst (process_chunk svc n f t m w (k, chunk) successful) = Inr (successful + 1) \<and>
         (\<exists>r. rows (snd (process_chunk svc n f t m w (k, chunk) successful)) = rows w @ [r] \<and>
              summary r = ''Content summary unavailable'' \<and> content r = chunk)"
proof -
  from ready emb have e: "get_embedding svc w chunk = (Inr v, log_call (EmbeddingsCreate chunk) w)"
    by (simp add: get_embedding_def)
  from ready summ obtain w2 where
    s: "get_summary svc n (log_call (EmbeddingsCreate chunk) w) chunk
          = (Inr ''Content summary unavailable'', w2)" and
    r: "rows w2 = rows w"
    by (simp add: get_summary_def Let_def log_call_def)
  from e s r ins show ?thesis
    by (simp add: process_chunk_def insert_chunk_def log_call_def)
qed

text \<open>
  Claim C7. \<open>get_summary\<close> never raises: it always returns a string, and when the
  remote completion call fails, whatever the error, that string is the fixed sentinel
  \<open>Content summary unavailable\<close>. A failed summary does not stop the chunk: when the
  embedding succeeds and the store accepts the insert, the chunk is stored with the
  sentinel as its summary and counted as successful.
\<close>

theorem get_summary_never_raises:
  "(\<exists>s. fst (get_summary svc n w text) = Inr s) \<and>
   (openai_ready svc \<and>
    summary_create svc
      (''Content:'' @ [CHR 0x0A] @
         (if int (length text) > n then slice_to text n @ ''...'' else text)) = Inl e \<longrightarrow>
      fst (get_summary svc n w text) = Inr ''Content summary unavailable'') \<and>
   (openai_ready svc \<and> embeddings_create svc chunk = Inr v \<and>
    summary_create svc
      (''Content:'' @ [CHR 0x0A] @
         (if int (length chunk) > n then slice_to chunk n @ ''...'' else chunk)) = Inl e \<and>
    (\<forall>r. insert_fault svc (rows w) r = None) \<longrightarrow>
      fst (process_chunk svc n f t m w (k, chunk) successful) = Inr (successful + 1) \<and>
      (\<exists>r. rows (snd (process_chunk svc n f t m w (k, chunk) successful)) = rows w @ [r] \<and>
           summary r = ''Content summary unavailable'' \<and> content r = chunk))"
proof (intro conjI impI)
  from get_summary_Inr [of svc n w "text"]
  show "\<exists>s. fst (get_summary svc n w text) = Inr s" by auto
next
  assume "openai_ready svc \<and>
    summary_create svc
      (''Content:'' @ [CHR 0x0A] @
         (if int (length text) > n then slice_to text n @ ''...'' else text)) = Inl e"
  then show "fst (get_summary svc n w text) = Inr ''Content summary unavailable''"
    by (simp add: get_summary_failure)
next
  assume h: "openai_ready svc \<and> embeddings_create svc chunk = Inr v \<and>
    summary_create svc
      (''Content:'' @ [CHR 0x0A] @
         (if int (length chunk) > n then slice_to chunk n @ ''...'' else chunk)) = Inl e \<and>
    (\<forall>r. insert_fault svc (rows w) r = None)"
  with process_chunk_summary_failure [of svc chunk v n e w f t m k successful]
  show "fst (process_chunk svc n f t m w (k, chunk) successful) = Inr (successful + 1)"
    by blast
  from h process_chunk_summary_failure [of svc chunk v n e w f t m k successful]
  show "\<exists>r. rows (snd (process_chunk svc n f t m w (k, chunk) successful)) = rows w @ [r] \<and>
      summary r = ''Content summary unavailable'' \<and> content r = chunk"
    by blast
qed

theorem get_summary_never_raises_witness:
  "fst (get_summary svc_no_summary 1000 w0 ''# Notes'') = Inr ''Content summary unavailable'' \<and>
   fst (process_chunk svc_no_summary 1000 notes_md ''Notes'' 1 w0 (0, ''# Notes'') 0) = Inr (0 + 1)"
proof -
  have ready: "openai_ready svc_no_summary"
    by (simp add: svc_no_summary_def svc_ok_def)
  have fails: "\<forall>u. summary_create svc_no_summary u = Inl ''Request timed out.''"
    by (simp add: svc_no_summary_def svc_ok_def)
  have emb: "embeddings_create svc_no_summary ''# Notes'' = Inr [1, 0]"
    by (simp add: svc_no_summary_def svc_ok_def)
  have ins: "\<forall>rs r. insert_fault svc_no_summary rs r = None"
    by (simp add: svc_no_summary_def svc_ok_def)
  note inst = get_summary_never_raises [of svc_no_summary 1000 w0 "''# Notes''"
      "''Request timed out.''" "''# Notes''" "[1, 0]" notes_md "''Notes''" 1 0 0]
  from inst ready fails
  have a: "fst (get_summary svc_no_summary 1000 w0 ''# Notes'') = Inr ''Content summary unavailable''"
    by blast
  from inst ready fails emb ins
  have b: "fst (process_chunk svc_no_summary 1000 notes_md ''Notes'' 1 w0 (0, ''# Notes'') 0)
      = Inr (0 + 1)"
    by blast
  from a b show ?thesis by (rule conjI)
qed

lemma get_embedding_rows: "rows (snd (get_embedding svc w text)) = rows w"
  by (simp add: get_embedding_def log_call_def split: sum.splits)

lemma process_chunk_embedding_failure:
  assumes "openai_ready svc" and "embeddings_create svc chunk = Inl e"
  shows "fst (process_chunk svc n f t m w (k, chunk) successful)
           = Inl (ValueError (embedding_error e)) \<and>
         rows (snd (process_chunk svc n f t m w (k, chunk) successful)) = rows w"
proof -
  from assms have e: "get_embedding svc w chunk
      = (Inl (ValueError (embedding_error e)), log_call (EmbeddingsCreate chunk) w)"
    by (simp add: get_embedding_def)
  obtain s w2 where
    s: "get_summary svc n (log_call (EmbeddingsCreate chunk) w) chunk = (Inr s, w2)" and
    r: "rows w2 = rows (log_call (EmbeddingsCreate chunk) w)"
    using get_summary_Inr by blast
  from e s r show ?thesis
    by (simp add: process_chunk_def log_call_def)
qed

lemma process_chunks_embedding_failure:
  assumes "openai_ready svc" and "embeddings_create svc chunk = Inl e"
  shows "fst (process_chunks svc n f t m ((k, chunk) # rest) successful w)
           = Inl (ValueError (embedding_error e)) \<and>
         rows (snd (process_chunks svc n f t m ((k, chunk) # rest) successful w)) = rows w"
proof -
  from process_chunk_embedding_failure [OF assms, of n f t m w k successful]
  obtain w' where "process_chunk svc n f t m w (k, chunk) successful
      = (Inl (ValueError (embedding_error e)), w')" and "rows w' = rows w"
    by (cases "process_chunk svc n f t m w (k, chunk) successful") auto
  then show ?thesis by simp
qed

lemma embedding_error_cases:
  "embedding_error e \<in>
     {InvalidApiKey, InsufficientQuota, RateLimitExceeded, EmbeddingModelNotFound, EmbeddingError e}"
  by (simp add: embedding_error_def Let_def)

lemma process_file_exception:
  assumes "fst (process_file_body svc cfg n w f) = Inl x"
  shows "fst (process_file svc cfg n w f) = False"
  using assms
  by (cases "process_file_body svc cfg n w f"; cases x) (simp_all add: process_file_def)

lemma process_files_counts:
  "fst (fst (process_files svc cfg n fs counts w)) + snd (fst (process_files svc cfg n fs counts w))
     = fst counts + snd counts + length fs"
proof (induction fs arbitrary: counts w)
  case Nil
  show ?case by simp
next
  case (Cons f fs)
  obtain b w' where pf: "process_file svc cfg n w f = (b, w')"
    by (cases "process_file svc cfg n w f") auto
  show ?case
  proof (cases b)
    case True
    with pf Cons.IH [of "(fst counts + 1, snd counts)" w'] show ?thesis by simp
  next
    case False
    with pf Cons.IH [of "(fst counts, snd counts + 1)" w'] show ?thesis by simp
  qed
qed

lemma main_counts:
  "\<exists>s fl. fst (main svc cfg n w (Some files)) = Inr (s, fl) \<and>
      (s + fl = length (filter (\<lambda>f. endswith (name f) ''.md'') files
                        @ filter (\<lambda>f. endswith (name f) ''.markdown'') files))"
proof -
  let ?fs = "filter (\<lambda>f. endswith (name f) ''.md'') files
             @ filter (\<lambda>f. endswith (name f) ''.markdown'') files"
  show ?thesis
  proof (cases "?fs = []")
    case True
    then have "fst (main svc cfg n w (Some files)) = Inr (0, 0)"
      by (simp add: main_def)
    with True show ?thesis by simp
  next
    case False
    obtain s fl w' where pf: "process_files svc cfg n ?fs (0, 0) w = ((s, fl), w')"
      by (cases "process_files svc cfg n ?fs (0, 0) w") auto
    from process_files_counts [of svc cfg n ?fs "(0, 0)" w] pf
    have "s + fl = length ?fs" by simp
    moreover from False pf have "fst (main svc cfg n w (Some files)) = Inr (s, fl)"
      by (auto simp add: main_def Let_def)
    ultimately show ?thesis by blast
  qed
qed

lemma main_returns: "\<exists>c w'. main svc cfg n w data_dir = (Inr c, w')"
  by (cases data_dir) (auto simp add: main_def Let_def split: prod.splits)

lemma ingest_script_exit_0:
  assumes "env_valid st" "clients_created st" "supabase_valid st" "openai_valid st"
  shows "fst (ingest_script st svc cfg n w data_dir) = 0"
proof -
  obtain c w' where
    "main (svc\<lparr>openai_ready := True, supabase_ready := True\<rparr>) cfg n w data_dir = (Inr c, w')"
    using main_returns by blast
  with assms show ?thesis by (simp add: ingest_script_def)
qed

text \<open>
  Claim C5, as the code has it. In the ingestion path every remote embedding error is
  raised by \<open>get_embedding\<close> as a classified \<open>ValueError\<close> (invalid key, quota, rate
  limit, model not found, or the unclassified error with its text), never a vector. The
  chunk loop raises it again, so that no further chunk of the file is processed and no
  row is added, and \<open>process_file\<close> turns every exception into the result \<open>False\<close>.
  The run is not aborted: \<open>main\<close> processes every Markdown file of the directory, each
  counted as successful or failed, and the script, once its start-up checks have passed,
  ends with exit status 0.
\<close>

theorem ingest_embedding_error:
  "(openai_ready svc \<and> embeddings_create svc chunk = Inl e \<longrightarrow>
      fst (get_embedding svc w chunk) = Inl (ValueError (embedding_error e)) \<and>
      embedding_error e \<in>
        {InvalidApiKey, InsufficientQuota, RateLimitExceeded, EmbeddingModelNotFound,
         EmbeddingError e} \<and>
      fst (process_chunks svc n f t m ((k, chunk) # rest) successful w)
        = Inl (ValueError (embedding_error e)) \<and>
      rows (snd (process_chunks svc n f t m ((k, chunk) # rest) successful w)) = rows w) \<and>
   (fst (process_file_body svc cfg n w f) = Inl x \<longrightarrow> fst (process_file svc cfg n w f) = False) \<and>
   (\<exists>s fl. fst (main svc cfg n w (Some files)) = Inr (s, fl) \<and>
      s + fl = length (filter (\<lambda>f. endswith (name f) ''.md'') files
                       @ filter (\<lambda>f. endswith (name f) ''.markdown'') files)) \<and>
   (env_valid st \<and> clients_created st \<and> supabase_valid st \<and> openai_valid st \<longrightarrow>
      fst (ingest_script st svc cfg n w data_dir) = 0)"
proof (intro conjI impI)
  assume h: "openai_ready svc \<and> embeddings_create svc chunk = Inl e"
  then show "fst (get_embedding svc w chunk) = Inl (ValueError (embedding_error e))"
    by (simp add: get_embedding_def)
  show "embedding_error e \<in>
      {InvalidApiKey, InsufficientQuota, RateLimitExceeded, EmbeddingModelNotFound,
       EmbeddingError e}"
    by (rule embedding_error_cases)
  from h process_chunks_embedding_failure [of svc chunk e n f t m k rest successful w]
  show "fst (process_chunks svc n f t m ((k, chunk) # rest) successful w)
      = Inl (ValueError (embedding_error e))"
    by blast
  from h process_chunks_embedding_failure [of svc chunk e n f t m k rest successful w]
  show "rows (snd (process_chunks svc n f t m ((k, chunk) # rest) successful w)) = rows w"
    by blast
next
  assume "fst (process_file_body svc cfg n w f) = Inl x"
  then show "fst (process_file svc cfg n w f) = False"
    by (rule process_file_exception)
next
  show "\<exists>s fl. fst (main svc cfg n w (Some files)) = Inr (s, fl) \<and>
      s + fl = length (filter (\<lambda>f. endswith (name f) ''.md'') files
                       @ filter (\<lambda>f. endswith (name f) ''.markdown'') files)"
    by (rule main_counts)
next
  assume "env_valid st \<and> clients_created st \<and> supabase_valid st \<and> openai_valid st"
  then show "fst (ingest_script st svc cfg n w data_dir) = 0"
    by (simp add: ingest_script_exit_0)
qed

lemma chunk_text_Cons: "\<exists>c cs. chunk_text cfg text arg = c # cs"
  by (simp add: chunk_text_def Let_def neq_Nil_conv[symmetric])

lemma process_file_body_embedding_failure:
  assumes rd: "read_text f = Inr ftext" "strip ftext \<noteq> []"
    and store: "supabase_ready svc" "select_fault svc (rows w) (''file://'' @ name f) = None"
      "filter (\<lambda>r. url r = ''file://'' @ name f) (rows w) = []"
    and emb: "openai_ready svc" "\<forall>t. embeddings_create svc t = Inl e"
  shows "fst (process_file_body svc cfg n w f) = Inl (ValueError (embedding_error e)) \<and>
         rows (snd (process_file_body svc cfg n w f)) = rows w"
proof -
  obtain c cs where ch: "chunk_text cfg ftext None = c # cs"
    using chunk_text_Cons by blast
  let ?w1 = "log_call (SelectUrl (''file://'' @ name f)) w"
  let ?t = "extract_title_from_markdown svc ftext (name f)"
  from emb have "embeddings_create svc c = Inl e" by simp
  from process_chunks_embedding_failure [OF emb(1) this, of n f ?t "length (c # cs)" 0
      "enumerate (Suc 0) cs" 0 ?w1]
  obtain w' where pc: "process_chunks svc n f ?t (length (c # cs)) ((0, c) # enumerate (Suc 0) cs) 0 ?w1
      = (Inl (ValueError (embedding_error e)), w')" and r: "rows w' = rows ?w1"
    by (cases "process_chunks svc n f ?t (length (c # cs)) ((0, c) # enumerate (Suc 0) cs) 0 ?w1")
      auto
  have "process_file_body svc cfg n w f = (Inl (ValueError (embedding_error e)), w')"
    using rd store ch pc
    by (simp add: process_file_body_def Let_def del: process_chunks.simps)
  with r show ?thesis by (simp add: log_call_def)
qed

lemma process_file_embedding_failure:
  assumes "read_text f = Inr ftext" "strip ftext \<noteq> []"
    and "supabase_ready svc" "select_fault svc (rows w) (''file://'' @ name f) = None"
      "filter (\<lambda>r. url r = ''file://'' @ name f) (rows w) = []"
    and "openai_ready svc" "\<forall>t. embeddings_create svc t = Inl e"
  shows "\<exists>w'. process_file svc cfg n w f = (False, w') \<and> rows w' = rows w"
proof -
  from process_file_body_embedding_failure [OF assms, of cfg n]
  obtain w' where "process_file_body svc cfg n w f = (Inl (ValueError (embedding_error e)), w')"
    and "rows w' = rows w"
    by (cases "process_file_body svc cfg n w f") auto
  then show ?thesis by (simp add: process_file_def)
qed

lemma strip_header: "strip ''# Notes'' \<noteq> [] \<and> strip ''# Guide'' \<noteq> []"
  by (simp add: strip_def isspace_def)

lemma no_quota_error: "embedding_error ''Error code: 429 - insufficient_quota'' = InsufficientQuota"
  by (simp add: embedding_error_def lower_def lower_char_def)

lemma no_quota_run:
  "fst (main svc_no_quota 8000 1000 w0 (Some [notes_md, guide_md])) = Inr (0, 2)"
proof -
  have fails: "\<forall>t. embeddings_create svc_no_quota t = Inl ''Error code: 429 - insufficient_quota''"
    by (simp add: svc_no_quota_def svc_ok_def)
  have ready: "openai_ready svc_no_quota" "supabase_ready svc_no_quota"
    by (simp_all add: svc_no_quota_def svc_ok_def)
  have sel: "\<And>rs u. select_fault svc_no_quota rs u = None"
    by (simp add: svc_no_quota_def svc_ok_def)
  have "\<exists>w'. process_file svc_no_quota 8000 1000 w0 notes_md = (False, w') \<and> rows w' = rows w0"
    by (rule process_file_embedding_failure [where ftext = "''# Notes''"])
      (simp_all add: notes_md_def strip_header ready sel fails w0_def)
  then obtain w1 where
    one: "process_file svc_no_quota 8000 1000 w0 notes_md = (False, w1)" and r1: "rows w1 = []"
    by (auto simp add: w0_def)
  have "\<exists>w'. process_file svc_no_quota 8000 1000 w1 guide_md = (False, w') \<and> rows w' = rows w1"
    by (rule process_file_embedding_failure [where ftext = "''# Guide''"])
      (simp_all add: guide_md_def strip_header ready sel fails r1)
  then obtain w2 where two: "process_file svc_no_quota 8000 1000 w1 guide_md = (False, w2)"
    by blast
  have files: "filter (\<lambda>f. endswith (name f) ''.md'') [notes_md, guide_md]
      @ filter (\<lambda>f. endswith (name f) ''.markdown'') [notes_md, guide_md] = [notes_md, guide_md]"
    by (simp add: endswith_def notes_md_def guide_md_def)
  from one two have "process_files svc_no_quota 8000 1000 [notes_md, guide_md] (0, 0) w0
      = ((0, 2), w2)"
    by simp
  with files show ?thesis by (simp add: main_def Let_def)
qed

theorem ingest_embedding_error_witness:
  "fst (get_embedding svc_no_quota w0 ''# Notes'') = Inl (ValueError InsufficientQuota) \<and>
   fst (process_file svc_no_quota 8000 1000 w0 notes_md) = False \<and>
   fst (ingest_script all_valid svc_no_quota 8000 1000 w0 (Some [notes_md, guide_md])) = 0"
proof -
  have fails: "\<forall>t. embeddings_create svc_no_quota t = Inl ''Error code: 429 - insufficient_quota''"
    by (simp add: svc_no_quota_def svc_ok_def)
  have ready: "openai_ready svc_no_quota" "supabase_ready svc_no_quota"
    by (simp_all add: svc_no_quota_def svc_ok_def)
  have valid: "env_valid all_valid \<and> clients_created all_valid \<and> supabase_valid all_valid \<and>
      openai_valid all_valid"
    by (simp add: all_valid_def)
  have body: "fst (process_file_body svc_no_quota 8000 1000 w0 notes_md)
      = Inl (ValueError (embedding_error ''Error code: 429 - insufficient_quota''))"
    using process_file_body_embedding_failure [where f = notes_md and ftext = "''# Notes''"
        and svc = svc_no_quota and w = w0 and e = "''Error code: 429 - insufficient_quota''"
        and cfg = 8000 and n = 1000]
    by (simp add: notes_md_def strip_header ready fails w0_def svc_no_quota_def svc_ok_def)
  note inst = ingest_embedding_error [where svc = svc_no_quota and chunk = "''# Notes''"
      and e = "''Error code: 429 - insufficient_quota''" and w = w0 and n = 1000
      and f = notes_md and cfg = 8000
      and x = "ValueError (embedding_error ''Error code: 429 - insufficient_quota'')"
      and st = all_valid and data_dir = "Some [notes_md, guide_md]"]
  from inst ready fails
  have a: "fst (get_embedding svc_no_quota w0 ''# Notes'')
      = Inl (ValueError (embedding_error ''Error code: 429 - insufficient_quota''))"
    by blast
  from inst body have b: "fst (process_file svc_no_quota 8000 1000 w0 notes_md) = False"
    by blast
  from inst valid
  have c: "fst (ingest_script all_valid svc_no_quota 8000 1000 w0 (Some [notes_md, guide_md])) = 0"
    by blast
  from a b c show ?thesis by (simp add: no_quota_error)
qed

text \<open>
  The claim as stated fails: when the embedding service answers every request with a
  quota error, the run is not aborted. Both files of the directory are processed and counted as failed, and the
  exit status is 0.
\<close>

theorem ingest_embedding_error_counterexample:
  "embeddings_create svc_no_quota ''# Notes'' = Inl ''Error code: 429 - insufficient_quota'' \<and>
   fst (main svc_no_quota 8000 1000 w0 (Some [notes_md, guide_md])) = Inr (0, 2) \<and>
   fst (ingest_script all_valid svc_no_quota 8000 1000 w0 (Some [notes_md, guide_md])) = 0"
proof -
  have "embeddings_create svc_no_quota ''# Notes'' = Inl ''Error code: 429 - insufficient_quota''"
    by (simp add: svc_no_quota_def svc_ok_def)
  moreover have "fst (ingest_script all_valid svc_no_quota 8000 1000 w0
      (Some [notes_md, guide_md])) = 0"
    by (rule ingest_script_exit_0) (simp_all add: all_valid_def)
  ultimately show ?thesis using no_quota_run by blast
qed

lemma process_file_existing:
  assumes "read_text f = Inr ftext" "strip ftext \<noteq> []"
    and "supabase_ready svc" "select_fault svc (rows w) (''file://'' @ name f) = None"
    and "\<exists>r \<in> set (rows w). url r = ''file://'' @ name f"
  shows "process_file svc cfg n w f = (True, log_call (SelectUrl (''file://'' @ name f)) w)"
proof -
  from assms(5) have "filter (\<lambda>r. url r = ''file://'' @ name f) (rows w) \<noteq> []"
    by (auto simp add: filter_empty_conv)
  with assms(1-4) show ?thesis
    by (simp add: process_file_def process_file_body_def)
qed

lemma insert_chunk_duplicate:
  assumes "insert_fault svc (rows w) data = Some e" "is_duplicate e"
  shows "insert_chunk svc w data successful = (Inr (successful + 1), log_call (Insert data) w)"
  using assms by (simp add: insert_chunk_def)

lemma insert_chunk_rows: "set (rows w) \<subseteq> set (rows (snd (insert_chunk svc w data s)))"
  by (auto simp add: insert_chunk_def log_call_def split: option.splits)

lemma insert_chunk_Inr:
  assumes honest: "\<forall>rs r e. insert_fault svc rs r = Some e \<and> is_duplicate e \<longrightarrow>
      (\<exists>r' \<in> set rs. url r' = url r \<and> chunk_number r' = chunk_number r)"
    and res: "insert_chunk svc w data s = (Inr s', w')"
  shows "s' = s + 1 \<and> (\<exists>r \<in> set (rows w'). url r = url data)"
proof (cases "insert_fault svc (rows w) data")
  case None
  with res show ?thesis by (auto simp add: insert_chunk_def log_call_def)
next
  case (Some e)
  with res have dup: "is_duplicate e"
    by (auto simp add: insert_chunk_def split: if_splits)
  with honest Some obtain r' where "r' \<in> set (rows w)" "url r' = url data" by blast
  moreover from res Some dup have "w' = log_call (Insert data) w" "s' = s + 1"
    by (auto simp add: insert_chunk_def)
  ultimately show ?thesis by (auto simp add: log_call_def)
qed

lemma get_summary_rows: "rows (snd (get_summary svc n w text)) = rows w"
  using get_summary_Inr [of svc n w "text"] by auto

lemma process_chunk_rows:
  "set (rows w) \<subseteq> set (rows (snd (process_chunk svc n f t m w ic s)))"
proof -
  obtain er w1 where e: "get_embedding svc w (snd ic) = (er, w1)"
    by (cases "get_embedding svc w (snd ic)") auto
  obtain sr w2 where s: "get_summary svc n w1 (snd ic) = (sr, w2)"
    by (cases "get_summary svc n w1 (snd ic)") auto
  from e get_embedding_rows [of svc w "snd ic"] have r1: "rows w1 = rows w" by simp
  from s get_summary_rows [of svc n w1 "snd ic"] have r2: "rows w2 = rows w1" by simp
  show ?thesis
    using e s r1 r2 insert_chunk_rows [of w2]
    by (auto simp add: process_chunk_def Let_def split: sum.splits)
qed

lemma process_chunk_Inr:
  assumes honest: "\<forall>rs r e. insert_fault svc rs r = Some e \<and> is_duplicate e \<longrightarrow>
      (\<exists>r' \<in> set rs. url r' = url r \<and> chunk_number r' = chunk_number r)"
    and res: "process_chunk svc n f t m w ic s = (Inr s', w')"
  shows "s' = s + 1 \<and> (\<exists>r \<in> set (rows w'). url r = ''file://'' @ name f)"
proof -
  obtain er w1 where e: "get_embedding svc w (snd ic) = (er, w1)"
    by (cases "get_embedding svc w (snd ic)") auto
  obtain sr w2 where s: "get_summary svc n w1 (snd ic) = (sr, w2)"
    by (cases "get_summary svc n w1 (snd ic)") auto
  from res e s obtain data where
    "insert_chunk svc w2 data s = (Inr s', w')" and "url data = ''file://'' @ name f"
    by (auto simp add: process_chunk_def Let_def split: sum.splits)
  with insert_chunk_Inr [OF honest, of w2 data s s' w'] show ?thesis by simp
qed

lemma process_chunks_rows:
  "set (rows w) \<subseteq> set (rows (snd (process_chunks svc n f t m ics s w)))"
proof (induction ics arbitrary: s w)
  case Nil
  show ?case by simp
next
  case (Cons ic ics)
  obtain res w1 where pc: "process_chunk svc n f t m w ic s = (res, w1)"
    by (cases "process_chunk svc n f t m w ic s") auto
  from pc process_chunk_rows [of w svc n f t m ic s]
  have mono: "set (rows w) \<subseteq> set (rows w1)" by simp
  show ?case
  proof (cases res)
    case (Inr s1)
    with pc mono Cons.IH [of w1 s1] show ?thesis by auto
  next
    case (Inl x)
    show ?thesis
    proof (cases x)
      case (ValueError v)
      with pc Inl mono show ?thesis by simp
    next
      case (Exception e)
      with pc Inl mono Cons.IH [of w1 s] show ?thesis by auto
    qed
  qed
qed

lemma process_chunks_Inr:
  assumes honest: "\<forall>rs r e. insert_fault svc rs r = Some e \<and> is_duplicate e \<longrightarrow>
      (\<exists>r' \<in> set rs. url r' = url r \<and> chunk_number r' = chunk_number r)"
  shows "process_chunks svc n f t m ics s w = (Inr s', w') \<Longrightarrow> s < s' \<Longrightarrow>
         \<exists>r \<in> set (rows w'). url r = ''file://'' @ name f"
proof (induction ics arbitrary: s w)
  case Nil
  then show ?case by simp
next
  case (Cons ic ics)
  obtain res w1 where pc: "process_chunk svc n f t m w ic s = (res, w1)"
    by (cases "process_chunk svc n f t m w ic s") auto
  show ?case
  proof (cases res)
    case (Inr s1)
    with pc process_chunk_Inr [OF honest, of n f t m w ic s s1 w1]
    obtain r where r: "r \<in> set (rows w1)" "url r = ''file://'' @ name f" by auto
    from pc Inr Cons.prems(1) have rest: "process_chunks svc n f t m ics s1 w1 = (Inr s', w')"
      by simp
    from process_chunks_rows [of w1 svc n f t m ics s1] rest have "set (rows w1) \<subseteq> set (rows w')"
      by simp
    with r show ?thesis by blast
  next
    case (Inl x)
    show ?thesis
    proof (cases x)
      case (ValueError v)
      with pc Inl Cons.prems(1) show ?thesis by simp
    next
      case (Exception e)
      with pc Inl Cons.prems(1) have "process_chunks svc n f t m ics s w1 = (Inr s', w')"
        by simp
      from Cons.IH [OF this Cons.prems(2)] show ?thesis .
    qed
  qed
qed

lemma process_file_True:
  assumes honest: "\<forall>rs r e. insert_fault svc rs r = Some e \<and> is_duplicate e \<longrightarrow>
      (\<exists>r' \<in> set rs. url r' = url r \<and> chunk_number r' = chunk_number r)"
    and res: "process_file svc cfg n w f = (True, w')"
  shows "(\<exists>ftext. read_text f = Inr ftext \<and> strip ftext \<noteq> []) \<and>
         (\<exists>r \<in> set (rows w'). url r = ''file://'' @ name f)"
proof -
  obtain br wb where body: "process_file_body svc cfg n w f = (br, wb)"
    by (cases "process_file_body svc cfg n w f") auto
  with res have br: "br = Inr True" and wb: "wb = w'"
    by (auto simp add: process_file_def split: sum.splits exn.splits)
  from body br obtain ftext where rd: "read_text f = Inr ftext" and nb: "strip ftext \<noteq> []"
    and ready: "supabase_ready svc"
    and sel: "select_fault svc (rows w) (''file://'' @ name f) = None"
    by (auto simp add: process_file_body_def split: sum.splits if_splits option.splits)
  show ?thesis
  proof (cases "filter (\<lambda>r. url r = ''file://'' @ name f) (rows w) = []")
    case False
    then obtain r where "r \<in> set (rows w)" "url r = ''file://'' @ name f"
      by (auto simp add: filter_empty_conv)
    moreover from body br wb rd nb ready sel False
    have "w' = log_call (SelectUrl (''file://'' @ name f)) w"
      by (simp add: process_file_body_def)
    ultimately show ?thesis using rd nb by (auto simp add: log_call_def)
  next
    case True
    let ?chunks = "chunk_text cfg ftext None"
    let ?w1 = "log_call (SelectUrl (''file://'' @ name f)) w"
    let ?t = "extract_title_from_markdown svc ftext (name f)"
    obtain pr wp where
      pc: "process_chunks svc n f ?t (length ?chunks) (enumerate 0 ?chunks) 0 ?w1 = (pr, wp)"
      by (cases "process_chunks svc n f ?t (length ?chunks) (enumerate 0 ?chunks) 0 ?w1") auto
    from body br wb rd nb ready sel True pc obtain s where
      "pr = Inr s" "0 < s" "wp = w'"
      by (auto simp add: process_file_body_def Let_def split: sum.splits)
    with pc process_chunks_Inr [OF honest, of n f ?t "length ?chunks" "enumerate 0 ?chunks" 0 ?w1 s w']
    have "\<exists>r \<in> set (rows w'). url r = ''file://'' @ name f" by simp
    with rd nb show ?thesis by blast
  qed
qed


text \<open>
  Claim C2. Ingestion is idempotent. When the file is read with a content that is not
  blank, the store client exists, the lookup succeeds and a row with the url of the file
  exists, \<open>process_file\<close> returns \<open>True\<close>, leaves the rows as they are and issues no
  remote call but the lookup. So a second run on a file whose first run returned \<open>True\<close>
  inserts nothing and returns \<open>True\<close> again, provided that the store refuses an insert
  as a duplicate only when a row with that url and chunk number exists. And an insert
  refused with a duplicate-key or unique-constraint error counts the chunk as successful.
\<close>

theorem ingestion_idempotent:
  "(read_text f = Inr ftext \<and> strip ftext \<noteq> [] \<and> supabase_ready svc \<and>
    select_fault svc (rows w) (''file://'' @ name f) = None \<and>
    (\<exists>r \<in> set (rows w). url r = ''file://'' @ name f) \<longrightarrow>
      process_file svc cfg n w f = (True, log_call (SelectUrl (''file://'' @ name f)) w) \<and>
      rows (snd (process_file svc cfg n w f)) = rows w \<and>
      calls (snd (process_file svc cfg n w f)) = calls w @ [SelectUrl (''file://'' @ name f)]) \<and>
   ((\<forall>rs r e. insert_fault svc1 rs r = Some e \<and> is_duplicate e \<longrightarrow>
       (\<exists>r' \<in> set rs. url r' = url r \<and> chunk_number r' = chunk_number r)) \<and>
    process_file svc1 cfg1 n1 w1 f = (True, w) \<and> supabase_ready svc \<and>
    select_fault svc (rows w) (''file://'' @ name f) = None \<longrightarrow>
      process_file svc cfg n w f = (True, log_call (SelectUrl (''file://'' @ name f)) w) \<and>
      rows (snd (process_file svc cfg n w f)) = rows w) \<and>
   (insert_fault svc (rows w) data = Some e \<and> is_duplicate e \<longrightarrow>
      insert_chunk svc w data successful = (Inr (successful + 1), log_call (Insert data) w) \<and>
      rows (snd (insert_chunk svc w data successful)) = rows w)"
proof (intro conjI impI)
  assume h: "read_text f = Inr ftext \<and> strip ftext \<noteq> [] \<and> supabase_ready svc \<and>
    select_fault svc (rows w) (''file://'' @ name f) = None \<and>
    (\<exists>r \<in> set (rows w). url r = ''file://'' @ name f)"
  then have pf: "process_file svc cfg n w f = (True, log_call (SelectUrl (''file://'' @ name f)) w)"
    by (simp add: process_file_existing)
  then show "process_file svc cfg n w f = (True, log_call (SelectUrl (''file://'' @ name f)) w)" .
  from pf show "rows (snd (process_file svc cfg n w f)) = rows w"
    by (simp add: log_call_def)
  from pf show "calls (snd (process_file svc cfg n w f))
      = calls w @ [SelectUrl (''file://'' @ name f)]"
    by (simp add: log_call_def)
next
  assume h: "(\<forall>rs r e. insert_fault svc1 rs r = Some e \<and> is_duplicate e \<longrightarrow>
       (\<exists>r' \<in> set rs. url r' = url r \<and> chunk_number r' = chunk_number r)) \<and>
    process_file svc1 cfg1 n1 w1 f = (True, w) \<and> supabase_ready svc \<and>
    select_fault svc (rows w) (''file://'' @ name f) = None"
  then have honest: "\<forall>rs r e. insert_fault svc1 rs r = Some e \<and> is_duplicate e \<longrightarrow>
       (\<exists>r' \<in> set rs. url r' = url r \<and> chunk_number r' = chunk_number r)"
    and run: "process_file svc1 cfg1 n1 w1 f = (True, w)"
    by blast+
  from process_file_True [OF honest run] obtain ftext' where
    "read_text f = Inr ftext'" "strip ftext' \<noteq> []"
    "\<exists>r \<in> set (rows w). url r = ''file://'' @ name f"
    by blast
  with h have pf: "process_file svc cfg n w f
      = (True, log_call (SelectUrl (''file://'' @ name f)) w)"
    by (simp add: process_file_existing)
  then show "process_file svc cfg n w f = (True, log_call (SelectUrl (''file://'' @ name f)) w)" .
  from pf show "rows (snd (process_file svc cfg n w f)) = rows w"
    by (simp add: log_call_def)
next
  assume h: "insert_fault svc (rows w) data = Some e \<and> is_duplicate e"
  then have ic: "insert_chunk svc w data successful
      = (Inr (successful + 1), log_call (Insert data) w)"
    by (simp add: insert_chunk_duplicate)
  then show "insert_chunk svc w data successful
      = (Inr (successful + 1), log_call (Insert data) w)" .
  from ic show "rows (snd (insert_chunk svc w data successful)) = rows w"
    by (simp add: log_call_def)
qed

lemma notes_first_run:
  "fst (process_file svc_ok 8000 1000 w0 notes_md) = True \<and>
   length (rows (snd (process_file svc_ok 8000 1000 w0 notes_md))) = 1"
proof -
  have s: "strip ''# Notes'' = ''# Notes''"
    by (simp add: strip_def isspace_def)
  have c: "chunk_text 8000 ''# Notes'' None = [''# Notes'']"
    by (simp add: chunk_text_def)
  show ?thesis
    by (simp add: process_file_def process_file_body_def notes_md_def svc_ok_def w0_def
        s c process_chunk_def get_embedding_def get_summary_def insert_chunk_def
        log_call_def Let_def enumerate_eq_zip)
qed

theorem ingestion_idempotent_witness:
  "fst (process_file svc_ok 8000 1000 w0 notes_md) = True \<and>
   length (rows (snd (process_file svc_ok 8000 1000 w0 notes_md))) = 1 \<and>
   process_file svc_ok 8000 1000 (snd (process_file svc_ok 8000 1000 w0 notes_md)) notes_md
     = (True, log_call (SelectUrl (''file://'' @ name notes_md))
                (snd (process_file svc_ok 8000 1000 w0 notes_md))) \<and>
   rows (snd (process_file svc_ok 8000 1000
                (snd (process_file svc_ok 8000 1000 w0 notes_md)) notes_md))
     = rows (snd (process_file svc_ok 8000 1000 w0 notes_md)) \<and>
   process_file svc_ok 8000 1000 (w0\<lparr>rows := [notes_row]\<rparr>) notes_md
     = (True, log_call (SelectUrl (''file://'' @ name notes_md)) (w0\<lparr>rows := [notes_row]\<rparr>)) \<and>
   insert_chunk svc_duplicate w0 notes_row 0 = (Inr (0 + 1), log_call (Insert notes_row) w0)"
proof -
  let ?w = "snd (process_file svc_ok 8000 1000 w0 notes_md)"
  have honest: "\<forall>rs r e. insert_fault svc_ok rs r = Some e \<and> is_duplicate e \<longrightarrow>
       (\<exists>r' \<in> set rs. url r' = url r \<and> chunk_number r' = chunk_number r)"
    by (simp add: svc_ok_def)
  have run: "process_file svc_ok 8000 1000 w0 notes_md = (True, ?w)"
    using notes_first_run by (cases "process_file svc_ok 8000 1000 w0 notes_md") simp
  have ready: "supabase_ready svc_ok" by (simp add: svc_ok_def)
  have sel: "\<And>rs. select_fault svc_ok rs (''file://'' @ name notes_md) = None"
    by (simp add: svc_ok_def)
  have rd: "read_text notes_md = Inr ''# Notes'' \<and> strip ''# Notes'' \<noteq> []"
    by (simp add: notes_md_def strip_def isspace_def)
  have ex: "\<exists>r \<in> set (rows (w0\<lparr>rows := [notes_row]\<rparr>)). url r = ''file://'' @ name notes_md"
    by (simp add: notes_row_def notes_md_def)
  have fault: "insert_fault svc_duplicate (rows w0) notes_row
      = Some ''duplicate key value violates unique constraint''"
    by (simp add: svc_duplicate_def svc_ok_def)
  have dup: "is_duplicate ''duplicate key value violates unique constraint''"
    by (simp add: is_duplicate_def lower_def lower_char_def)
  note second = ingestion_idempotent [where f = notes_md and svc = svc_ok and ?svc1.0 = svc_ok
      and ?cfg1.0 = 8000 and ?n1.0 = 1000 and ?w1.0 = w0 and w = ?w and cfg = 8000 and n = 1000]
  note existing = ingestion_idempotent [where f = notes_md and svc = svc_ok
      and w = "w0\<lparr>rows := [notes_row]\<rparr>" and cfg = 8000 and n = 1000 and ftext = "''# Notes''"]
  note refused = ingestion_idempotent [where svc = svc_duplicate and w = w0 and data = notes_row
      and e = "''duplicate key value violates unique constraint''" and successful = 0]
  from second honest run ready sel
  have a: "process_file svc_ok 8000 1000 ?w notes_md
        = (True, log_call (SelectUrl (''file://'' @ name notes_md)) ?w) \<and>
      rows (snd (process_file svc_ok 8000 1000 ?w notes_md)) = rows ?w"
    by blast
  from existing rd ready sel ex
  have b: "process_file svc_ok 8000 1000 (w0\<lparr>rows := [notes_row]\<rparr>) notes_md
      = (True, log_call (SelectUrl (''file://'' @ name notes_md)) (w0\<lparr>rows := [notes_row]\<rparr>))"
    by blast
  from refused fault dup
  have c: "insert_chunk svc_duplicate w0 notes_row 0 = (Inr (0 + 1), log_call (Insert notes_row) w0)"
    by blast
  from notes_first_run a b c show ?thesis by blast
qed

end
